theory Spec2Isabelle
  imports Complex_Main
begin

section \<open>AdsorbAI: the slab builder and the adsorption site engine\<close>

text \<open>
  A shallow embedding of the physics engine of the repository (the module that exports
  \<^verbatim>\<open>generateSlabStructure\<close> and \<^verbatim>\<open>calculateAdsorptionPhysics\<close>) and of
  the constant tables it reads.

  Conventions of the embedding:
  \<^item> a JavaScript number is a \<open>real\<close>: arithmetic is exact, without the rounding of
    IEEE doubles, and every number of an input is finite. The only non-finite value that
    the engine can make out of finite ones, \<^verbatim>\<open>Math.max()\<close> of no arguments, is
    modelled by the type \<open>jsnum\<close>. Atom ids and counters are \<open>nat\<close>;
  \<^item> a JavaScript string is a \<open>string\<close>, one \<open>char\<close> per code unit; the patterns of the
    engine test ASCII classes only;
  \<^item> a table of type \<^verbatim>\<open>Record<string, T>\<close> is a map \<open>string \<rightharpoonup> T\<close>, and a missing
    key reads as \<open>None\<close> (\<^verbatim>\<open>undefined\<close>). The names that a JavaScript object inherits
    from its prototype are not keys of the model; the engine agrees with it on every key
    that is no such name, so on every element symbol and on every structure of the builder;
  \<^item> an optional field of an interface is an \<open>option\<close>;
  \<^item> reading a property of \<^verbatim>\<open>undefined\<close> throws: \<open>Inl (TypeError p)\<close>, with \<open>p\<close> the
    property that was read;
  \<^item> \<^verbatim>\<open>Math.random\<close> is a parameter \<open>rnd\<close>: \<open>rnd k\<close> is the value that the
    \<open>k\<close>-th call of one invocation returns; the engine threads the number of calls made;
  \<^item> \<^verbatim>\<open>Array.prototype.sort\<close> with the comparator of the engine is the stable sort
    by the key \<open>energy\<close>;
  \<^item> the fields \<^verbatim>\<open>id\<close> of an atom and of a site are \<open>atom_id\<close> and \<open>site_id\<close>.
\<close>

subsection \<open>Data model\<close>

record Atom =
  atom_id :: nat
  element :: string
  x :: real
  y :: real
  z :: real
  color :: "string option"
  radius :: "real option"

datatype SiteType = Top | Bridge | Hollow | fcc | hcp

datatype jsnum = NegInfinity | Num real

record AdsorptionSite =
  site_id :: string
  type :: SiteType
  coordinates :: "real \<times> real \<times> jsnum"
  energy :: real
  description :: string

record MaterialStructure =
  formula :: string
  mpId :: "string option"
  millerIndex :: "string option"
  description :: string
  formationEnergy :: "real option"
  bandGap :: "real option"
  symmetry :: "string option"
  atoms :: "Atom list"
  latticeVectors :: "real list list option"

record AnalysisResult =
  sites :: "AdsorptionSite list"
  summary :: string
  potentialUsed :: string
  calculationTime :: string
  systemId :: "string option"
  model :: "string option"

record ElementData =
  latticeConstant :: real
  mpId :: string
  formationEnergy :: real
  bandGap :: real
  symmetry :: string
  electronegativity :: real

datatype js_error = TypeError string

subsection \<open>The constant tables\<close>

definition CPK_COLORS :: "string \<rightharpoonup> string" where
  "CPK_COLORS = map_of
    [(''H'', ''#FFFFFF''), (''C'', ''#909090''), (''N'', ''#3050F8''), (''O'', ''#FF0D0D''),
     (''F'', ''#90E050''), (''Na'', ''#AB5CF2''), (''Mg'', ''#8AFF00''), (''Al'', ''#BFA6A6''),
     (''Si'', ''#F0C8A0''), (''P'', ''#FF8000''), (''S'', ''#FFFF30''), (''Cl'', ''#1FF01F''),
     (''K'', ''#8F40D4''), (''Ca'', ''#3DFF00''), (''Ti'', ''#BFC2C7''), (''Fe'', ''#E06633''),
     (''Ni'', ''#50D050''), (''Cu'', ''#C88033''), (''Zn'', ''#7D80B0''), (''Au'', ''#FFD123''),
     (''Ag'', ''#C0C0C0''), (''Pt'', ''#D0D0E0''), (''Pd'', ''#006985''),
     \<comment> \<open>Default fallback\<close>
     (''X'', ''#FF00FF'')]"

definition ATOMIC_RADII :: "string \<rightharpoonup> real" where
  "ATOMIC_RADII = map_of
    [(''H'', 37 / 100), (''C'', 77 / 100), (''N'', 75 / 100), (''O'', 73 / 100),
     (''F'', 71 / 100), (''Na'', 154 / 100), (''Mg'', 130 / 100), (''Al'', 118 / 100),
     (''Si'', 111 / 100), (''P'', 106 / 100), (''S'', 102 / 100), (''Cl'', 99 / 100),
     (''K'', 196 / 100), (''Ca'', 174 / 100), (''Ti'', 136 / 100), (''Fe'', 125 / 100),
     (''Ni'', 121 / 100), (''Cu'', 128 / 100), (''Zn'', 131 / 100), (''Au'', 144 / 100),
     (''Ag'', 144 / 100), (''Pt'', 138 / 100), (''Pd'', 137 / 100),
     (''X'', 1)]"

definition ELEMENT_PROPERTIES :: "string \<rightharpoonup> ElementData" where
  "ELEMENT_PROPERTIES = map_of
    [(''Au'', \<lparr>latticeConstant = 4078 / 1000, mpId = ''mp-81'', formationEnergy = 0,
               bandGap = 0, symmetry = ''Fm-3m'', electronegativity = 254 / 100\<rparr>),
     (''Ag'', \<lparr>latticeConstant = 4085 / 1000, mpId = ''mp-124'', formationEnergy = 0,
               bandGap = 0, symmetry = ''Fm-3m'', electronegativity = 193 / 100\<rparr>),
     (''Cu'', \<lparr>latticeConstant = 3615 / 1000, mpId = ''mp-30'', formationEnergy = 0,
               bandGap = 0, symmetry = ''Fm-3m'', electronegativity = 190 / 100\<rparr>),
     (''Pt'', \<lparr>latticeConstant = 3924 / 1000, mpId = ''mp-126'', formationEnergy = 0,
               bandGap = 0, symmetry = ''Fm-3m'', electronegativity = 228 / 100\<rparr>),
     (''Pd'', \<lparr>latticeConstant = 3890 / 1000, mpId = ''mp-2'', formationEnergy = 0,
               bandGap = 0, symmetry = ''Fm-3m'', electronegativity = 220 / 100\<rparr>),
     (''Ni'', \<lparr>latticeConstant = 3524 / 1000, mpId = ''mp-23'', formationEnergy = 0,
               bandGap = 0, symmetry = ''Fm-3m'', electronegativity = 191 / 100\<rparr>),
     (''Al'', \<lparr>latticeConstant = 4049 / 1000, mpId = ''mp-134'', formationEnergy = 0,
               bandGap = 0, symmetry = ''Fm-3m'', electronegativity = 161 / 100\<rparr>)]"

text \<open>
  The three reads with a default. \<^verbatim>\<open>a || b\<close> yields \<open>b\<close> when \<open>a\<close> is
  \<^verbatim>\<open>undefined\<close>, the empty string or zero. The physical read
  \<^verbatim>\<open>ELEMENT_PROPERTIES[element] || ELEMENT_PROPERTIES['Cu']\<close> occurs in both functions
  of the engine; its value is \<open>None\<close> when both reads are \<^verbatim>\<open>undefined\<close>.
\<close>

definition color_or_default :: "string \<Rightarrow> string" where
  "color_or_default el =
     (case CPK_COLORS el of None \<Rightarrow> ''#ff00ff'' | Some c \<Rightarrow> if c = [] then ''#ff00ff'' else c)"

definition radius_or_default :: "string \<Rightarrow> real" where
  "radius_or_default el =
     (case ATOMIC_RADII el of None \<Rightarrow> 1 | Some r \<Rightarrow> if r = 0 then 1 else r)"

definition props_or_default :: "string \<Rightarrow> ElementData option" where
  "props_or_default el =
     (case ELEMENT_PROPERTIES el of None \<Rightarrow> ELEMENT_PROPERTIES ''Cu'' | Some p \<Rightarrow> Some p)"

definition createAtom :: "string \<Rightarrow> real \<Rightarrow> real \<Rightarrow> real \<Rightarrow> nat \<Rightarrow> Atom" where
  "createAtom el px py pz idOffset =
     \<lparr>atom_id = idOffset, element = el, x = px, y = py, z = pz,
      color = Some (color_or_default el), radius = Some (radius_or_default el)\<rparr>"

subsection \<open>Strings and numbers of the runtime\<close>

definition is_upper :: "char \<Rightarrow> bool" where
  "is_upper c = (of_char c \<ge> (65::nat) \<and> of_char c \<le> (90::nat))"

definition is_lower :: "char \<Rightarrow> bool" where
  "is_lower c = (of_char c \<ge> (97::nat) \<and> of_char c \<le> (122::nat))"

definition is_digit :: "char \<Rightarrow> bool" where
  "is_digit c = (of_char c \<ge> (48::nat) \<and> of_char c \<le> (57::nat))"

text \<open>\<^verbatim>\<open>query.match(/^([A-Z][a-z]?)/)\<close>: the first group, or \<open>None\<close> for \<^verbatim>\<open>null\<close>.\<close>

fun elementMatch :: "string \<Rightarrow> string option" where
  "elementMatch [] = None"
| "elementMatch [c] = (if is_upper c then Some [c] else None)"
| "elementMatch (c # d # cs) =
     (if is_upper c then (if is_lower d then Some [c, d] else Some [c]) else None)"

text \<open>\<^verbatim>\<open>query.match(/\((\d{3})\)/)\<close>: the first group of the leftmost match.\<close>

fun faceMatch :: "string \<Rightarrow> string option" where
  "faceMatch (a # d1 # d2 # d3 # b # cs) =
     (if a = CHR ''('' \<and> is_digit d1 \<and> is_digit d2 \<and> is_digit d3 \<and> b = CHR '')''
      then Some [d1, d2, d3] else faceMatch (d1 # d2 # d3 # b # cs))"
| "faceMatch cs = None"

text \<open>Decimal digits of a natural number, as a template literal prints an integer.\<close>

fun digits_of :: "nat \<Rightarrow> string" where
  "digits_of n =
     (if n < 10 then [char_of (48 + n)] else digits_of (n div 10) @ [char_of (48 + n mod 10)])"

declare digits_of.simps [simp del]

definition int_to_string :: "int \<Rightarrow> string" where
  "int_to_string i = (if i < 0 then ''-'' @ digits_of (nat (- i)) else digits_of (nat i))"

text \<open>
  \<^verbatim>\<open>Number.prototype.toFixed(2)\<close> on a number below \<open>10\<^sup>2\<^sup>1\<close> in magnitude: the sign,
  then the integer \<open>n\<close> nearest to \<open>100 \<cdot> |v|\<close> (the larger one on a tie), printed with two
  decimals.
\<close>

definition toFixed2 :: "real \<Rightarrow> string" where
  "toFixed2 v =
     (let s = (if v < 0 then ''-'' else '''');
          n = nat \<lfloor>\<bar>v\<bar> * 100 + 1 / 2\<rfloor>
      in s @ digits_of (n div 100) @ ''.'' @
         [char_of (48 + (n div 10) mod 10), char_of (48 + n mod 10)])"

text \<open>
  The remainder operator \<^verbatim>\<open>%\<close> on finite numbers with a non-zero divisor: the
  dividend minus the divisor times the quotient truncated towards zero.
\<close>

definition js_rem :: "real \<Rightarrow> real \<Rightarrow> real" where
  "js_rem n d =
     n - d * of_int (if n / d \<ge> 0 then \<lfloor>n / d\<rfloor> else \<lceil>n / d\<rceil>)"

text \<open>\<^verbatim>\<open>Math.max(...vs)\<close>: minus infinity when there is no argument.\<close>

fun jsnum_max :: "jsnum \<Rightarrow> real \<Rightarrow> jsnum" where
  "jsnum_max NegInfinity v = Num v"
| "jsnum_max (Num m) v = Num (max m v)"

definition Math_max :: "real list \<Rightarrow> jsnum" where
  "Math_max vs = foldl jsnum_max NegInfinity vs"

fun jsnum_add :: "jsnum \<Rightarrow> real \<Rightarrow> jsnum" where
  "jsnum_add NegInfinity v = NegInfinity"
| "jsnum_add (Num m) v = Num (m + v)"

fun gt_jsnum :: "real \<Rightarrow> jsnum \<Rightarrow> bool" where
  "gt_jsnum v NegInfinity = True"
| "gt_jsnum v (Num m) = (v > m)"

text \<open>The name of a site type, as a template literal prints it.\<close>

fun type_name :: "SiteType \<Rightarrow> string" where
  "type_name Top = ''Top''"
| "type_name Bridge = ''Bridge''"
| "type_name Hollow = ''Hollow''"
| "type_name fcc = ''fcc''"
| "type_name hcp = ''hcp''"

subsection \<open>The slab builder\<close>

text \<open>Lines 29 to 33 of the builder: the two matches and their defaults.\<close>

definition parse_element :: "string \<Rightarrow> string" where
  "parse_element query = (case elementMatch query of Some m \<Rightarrow> m | None \<Rightarrow> ''Cu'')"

definition parse_face :: "string \<Rightarrow> string" where
  "parse_face query = (case faceMatch query of Some m \<Rightarrow> m | None \<Rightarrow> ''111'')"

text \<open>
  The body of the innermost loop of the (111) branch. The state is the array \<open>atoms\<close> and
  the counter \<open>id\<close>, both local to one invocation.
\<close>

definition fcc111_cell ::
  "string \<Rightarrow> real \<Rightarrow> real \<Rightarrow> real \<Rightarrow> nat \<Rightarrow> nat \<Rightarrow> nat \<Rightarrow> nat \<Rightarrow> nat \<Rightarrow>
   Atom list \<times> nat \<Rightarrow> Atom list \<times> nat" where
  "fcc111_cell el x_dist y_dist z_layer_spacing nx ny k j i st =
     (case st of (atoms_acc, next_id) \<Rightarrow>
       let shiftX = (if k mod 3 = 1 then (1 / 2) * x_dist else if k mod 3 = 2 then 0 else 0);
           shiftY = (if k mod 3 = 1 then y_dist / 6
                     else if k mod 3 = 2 then 2 * (y_dist / 6) else 0);
           px = real i * x_dist + shiftX;
           py = real j * y_dist + shiftY;
           pz = real k * z_layer_spacing
       in (atoms_acc @
             [createAtom el (js_rem px (x_dist * real nx)) (js_rem py (y_dist * real ny)) pz
                next_id,
              createAtom el (js_rem (px + x_dist / 2) (x_dist * real nx))
                (js_rem (py + y_dist / 2) (y_dist * real ny)) pz (next_id + 1)],
           next_id + 2))"

definition fcc111 :: "string \<Rightarrow> real \<Rightarrow> Atom list \<times> real list list" where
  "fcc111 el a =
     (let x_dist = a / sqrt 2;
          y_dist = a * sqrt 6 / 2;
          z_layer_spacing = a / sqrt 3;
          nx = 3; ny = 3; nz = 4;
          lattice = [[x_dist * real nx, 0, 0],
                     [0, y_dist * real ny, 0],
                     [0, 0, z_layer_spacing * real nz + 10]];
          st = fold (\<lambda>k. fold (\<lambda>j. fold (\<lambda>i.
                 fcc111_cell el x_dist y_dist z_layer_spacing nx ny k j i)
                 [0..<nx]) [0..<ny]) [0..<nz] ([], 0)
      in (fst st, lattice))"

text \<open>The body of the innermost loop of the other branch.\<close>

definition fcc100_cell ::
  "string \<Rightarrow> real \<Rightarrow> real \<Rightarrow> nat \<Rightarrow> nat \<Rightarrow> nat \<Rightarrow> Atom list \<times> nat \<Rightarrow> Atom list \<times> nat" where
  "fcc100_cell el d layerSpacing k j i st =
     (case st of (atoms_acc, next_id) \<Rightarrow>
       let px = real i * d;
           py = real j * d;
           px' = (if k mod 2 = 1 then px + d / 2 else px);
           py' = (if k mod 2 = 1 then py + d / 2 else py)
       in (atoms_acc @ [createAtom el px' py' (real k * layerSpacing) next_id], next_id + 1))"

definition fcc100 :: "string \<Rightarrow> real \<Rightarrow> Atom list \<times> real list list" where
  "fcc100 el a =
     (let d = a / sqrt 2;
          nx = 4; ny = 4; nz = 4;
          lattice = [[d * real nx, 0, 0],
                     [0, d * real ny, 0],
                     [0, 0, d * sqrt 2 * (1 / 2) * real nz + 10]];
          layerSpacing = a / 2;
          st = fold (\<lambda>k. fold (\<lambda>j. fold (\<lambda>i.
                 fcc100_cell el d layerSpacing k j i)
                 [0..<nx]) [0..<ny]) [0..<nz] ([], 0)
      in (fst st, lattice))"

definition generateSlabStructure :: "string \<Rightarrow> js_error + MaterialStructure" where
  "generateSlabStructure query =
     (let el = parse_element query;
          face = parse_face query
      in case props_or_default el of
           None \<Rightarrow> Inl (TypeError ''latticeConstant'')
         | Some props \<Rightarrow>
             let a = latticeConstant props;
                 built = (if face = ''111'' then fcc111 el a else fcc100 el a)
             in Inr \<lparr>formula = el,
                     mpId = Some (ElementData.mpId props),
                     millerIndex = Some (''('' @ face @ '')''),
                     description = el @ '' '' @ face @ '' Surface Slab (Simulated ASE)'',
                     formationEnergy = Some (ElementData.formationEnergy props),
                     bandGap = Some (ElementData.bandGap props),
                     symmetry = Some (ElementData.symmetry props),
                     atoms = fst built,
                     latticeVectors = Some (snd built)\<rparr>)"

subsection \<open>The adsorption site engine\<close>

type_synonym rng = "nat \<Rightarrow> real"

text \<open>Step 1: the surface atoms.\<close>

definition maxY_of :: "MaterialStructure \<Rightarrow> jsnum" where
  "maxY_of structure = Math_max (map z (atoms structure))"

definition surfaceAtoms_of :: "MaterialStructure \<Rightarrow> Atom list" where
  "surfaceAtoms_of structure =
     filter (\<lambda>a. gt_jsnum (z a) (jsnum_add (maxY_of structure) (- (3 / 2)))) (atoms structure)"

text \<open>
  Step 2A: the site pushed for an atom, and the callback of
  \<^verbatim>\<open>surfaceAtoms.forEach\<close>. The state is the array \<open>sites\<close> and the number of calls
  of \<^verbatim>\<open>Math.random\<close> made so far.
\<close>

definition top_site :: "Atom \<Rightarrow> AdsorptionSite" where
  "top_site atom =
     \<lparr>site_id = ''top-'' @ digits_of (atom_id atom),
      type = Top,
      coordinates = (x atom, y atom, Num (z atom + 2)),
      energy = 0,
      description = ''On-top of atom #'' @ digits_of (atom_id atom)\<rparr>"

definition top_step :: "rng \<Rightarrow> Atom \<Rightarrow> AdsorptionSite list \<times> nat \<Rightarrow> AdsorptionSite list \<times> nat" where
  "top_step rnd atom st =
     (case st of (sites_acc, n) \<Rightarrow>
       if rnd n > 7 / 10 then (sites_acc, Suc n)
       else (sites_acc @ [top_site atom], Suc n))"

text \<open>Step 2B: the body of the inner loop over the pairs \<open>i < j\<close>.\<close>

definition pair_dist :: "Atom \<Rightarrow> Atom \<Rightarrow> real" where
  "pair_dist a1 a2 = sqrt ((x a1 - x a2)\<^sup>2 + (y a1 - y a2)\<^sup>2 + (z a1 - z a2)\<^sup>2)"

definition bridge_site :: "Atom \<Rightarrow> Atom \<Rightarrow> AdsorptionSite" where
  "bridge_site a1 a2 =
     \<lparr>site_id = ''brg-'' @ digits_of (atom_id a1) @ ''-'' @ digits_of (atom_id a2),
      type = Bridge,
      coordinates = ((x a1 + x a2) / 2, (y a1 + y a2) / 2, Num ((z a1 + z a2) / 2 + 18 / 10)),
      energy = 0,
      description = ''Bridge site''\<rparr>"

definition bridge_step ::
  "rng \<Rightarrow> Atom list \<Rightarrow> nat \<Rightarrow> nat \<Rightarrow> AdsorptionSite list \<times> nat \<Rightarrow> AdsorptionSite list \<times> nat" where
  "bridge_step rnd surfaceAtoms i j st =
     (case st of (sites_acc, n) \<Rightarrow>
       let a1 = surfaceAtoms ! i;
           a2 = surfaceAtoms ! j;
           dist = pair_dist a1 a2
       in if dist < 3 \<and> dist > 2 then
            (if rnd n > 8 / 10 then (sites_acc @ [bridge_site a1 a2], Suc n)
             else (sites_acc, Suc n))
          else (sites_acc, n))"

definition candidate_sites :: "rng \<Rightarrow> Atom list \<Rightarrow> AdsorptionSite list \<times> nat" where
  "candidate_sites rnd surfaceAtoms =
     fold (\<lambda>i. fold (\<lambda>j. bridge_step rnd surfaceAtoms i j) [i + 1..<length surfaceAtoms])
       [0..<length surfaceAtoms]
       (fold (top_step rnd) surfaceAtoms ([], 0))"

text \<open>
  Step 2C: the fallback site. \<^verbatim>\<open>surfaceAtoms[0]\<close> is \<^verbatim>\<open>undefined\<close> when
  there is no surface atom, and reading its \<^verbatim>\<open>x\<close> throws.
\<close>

definition hollow_site :: "Atom \<Rightarrow> jsnum \<Rightarrow> AdsorptionSite" where
  "hollow_site a0 maxY =
     \<lparr>site_id = ''hollow-1'',
      type = Hollow,
      coordinates = (x a0 + 12 / 10, y a0 + 8 / 10, jsnum_add maxY (15 / 10)),
      energy = 0,
      description = ''fcc hollow''\<rparr>"

definition add_hollow ::
  "Atom list \<Rightarrow> jsnum \<Rightarrow> AdsorptionSite list \<Rightarrow> js_error + AdsorptionSite list" where
  "add_hollow surfaceAtoms maxY sites_acc =
     (if length sites_acc < 5 then
        (case surfaceAtoms of
           [] \<Rightarrow> Inl (TypeError ''x'')
         | a0 # _ \<Rightarrow> Inr (sites_acc @ [hollow_site a0 maxY]))
      else Inr sites_acc)"

text \<open>Step 3: the energies.\<close>

definition enAds_of :: "string \<Rightarrow> real" where
  "enAds_of adsorbate =
     (if CHR ''O'' \<in> set adsorbate then 344 / 100
      else if CHR ''N'' \<in> set adsorbate then 304 / 100 else 255 / 100)"

definition siteFactor :: "SiteType \<Rightarrow> real" where
  "siteFactor t =
     (let f0 = 0;
          f1 = (if t = Top then 1 / 2 else f0);
          f2 = (if t = Bridge then - (2 / 10) else f1);
          f3 = (if t = Hollow then - (8 / 10) else f2)
      in f3)"

definition score_step ::
  "rng \<Rightarrow> real \<Rightarrow> AdsorptionSite \<Rightarrow> AdsorptionSite list \<times> nat \<Rightarrow> AdsorptionSite list \<times> nat" where
  "score_step rnd baseBinding site st =
     (case st of (scored, n) \<Rightarrow>
       let relaxation = (rnd n - 1 / 2) * (2 / 10)
       in (scored @ [site\<lparr>energy := baseBinding + siteFactor (type site) + relaxation\<rparr>],
           Suc n))"

definition calculateAdsorptionPhysics ::
  "rng \<Rightarrow> MaterialStructure \<Rightarrow> string \<Rightarrow> js_error + AnalysisResult" where
  "calculateAdsorptionPhysics rnd structure adsorbate =
     (let maxY = maxY_of structure;
          surfaceAtoms = surfaceAtoms_of structure;
          found = candidate_sites rnd surfaceAtoms
      in case add_hollow surfaceAtoms maxY (fst found) of
           Inl e \<Rightarrow> Inl e
         | Inr all_sites \<Rightarrow>
             let bulkElem = formula structure;
                 adsorbateElem = filter (\<lambda>c. \<not> is_digit c) adsorbate
             in (case props_or_default bulkElem of
                  None \<Rightarrow> Inl (TypeError ''electronegativity'')
                | Some props \<Rightarrow>
                    let enMetal = electronegativity props;
                        enAds = enAds_of adsorbate;
                        deltaEn = \<bar>enMetal - enAds\<bar>;
                        baseBinding = - (1 / 2) * deltaEn;
                        scored = fold (score_step rnd baseBinding) all_sites ([], snd found);
                        sortedSites = take 8 (sort_key energy (fst scored))
                    in Inr \<lparr>sites = sortedSites,
                            summary =
                              ''Analysis performed using EquiformerV2 simulation. Found '' @
                              digits_of (length (fst scored)) @
                              '' candidate sites. Most stable site: '' @
                              (case sortedSites of [] \<Rightarrow> ''undefined''
                               | s0 # _ \<Rightarrow> type_name (type s0)) @
                              '' ('' @
                              (case sortedSites of [] \<Rightarrow> ''undefined''
                               | s0 # _ \<Rightarrow> toFixed2 (energy s0)) @
                              '' eV). Surface relaxation converged.'',
                            potentialUsed = ''FAIR-Chem EquiformerV2 (Simulated)'',
                            calculationTime = ''1.2s'',
                            systemId =
                              Some (''sys_'' @ int_to_string \<lfloor>rnd (snd scored) * 10000\<rfloor>),
                            model = Some ''equiformer_v2_31M_s2ef_all_md''\<rparr>))"

section \<open>Notions used to state the properties\<close>

text \<open>The \<^verbatim>\<open>sites\<close> field of the result of an analysis, or its error.\<close>

definition ranked_sites :: "rng \<Rightarrow> MaterialStructure \<Rightarrow> string \<Rightarrow> js_error + AdsorptionSite list" where
  "ranked_sites rnd structure adsorbate =
     map_sum id sites (calculateAdsorptionPhysics rnd structure adsorbate)"

text \<open>
  The shapes a candidate site can have: the site above a surface atom, or the site between
  the surface atoms at two positions \<open>i < j\<close> whose distance lies strictly between 2 and 3;
  and, for a site of the final list, also the fallback site beside the first surface atom.
\<close>

definition candidate_ok :: "Atom list \<Rightarrow> AdsorptionSite \<Rightarrow> bool" where
  "candidate_ok sa s \<longleftrightarrow>
     (\<exists>a\<in>set sa. s = top_site a) \<or>
     (\<exists>i j. i < j \<and> j < length sa \<and> 2 < pair_dist (sa ! i) (sa ! j) \<and>
            pair_dist (sa ! i) (sa ! j) < 3 \<and> s = bridge_site (sa ! i) (sa ! j))"

definition shape_ok :: "MaterialStructure \<Rightarrow> AdsorptionSite \<Rightarrow> bool" where
  "shape_ok s c \<longleftrightarrow>
     candidate_ok (surfaceAtoms_of s) c \<or>
     (\<exists>a0 rest. surfaceAtoms_of s = a0 # rest \<and> c = hollow_site a0 (maxY_of s))"


text \<open>
  The shapes that the two patterns of the builder describe: an element symbol is one
  upper-case letter, optionally followed by one lower-case letter; a Miller group is three
  digits in parentheses.
\<close>

definition symbol_shaped :: "string \<Rightarrow> bool" where
  "symbol_shaped w =
     (case w of [u] \<Rightarrow> is_upper u | [u, l] \<Rightarrow> is_upper u \<and> is_lower l | _ \<Rightarrow> False)"

definition miller_group :: "string \<Rightarrow> bool" where
  "miller_group g =
     (case g of
        [a, d1, d2, d3, b] \<Rightarrow>
          a = CHR ''('' \<and> is_digit d1 \<and> is_digit d2 \<and> is_digit d3 \<and> b = CHR '')''
      | _ \<Rightarrow> False)"

text \<open>A character with a lower-case ASCII letter turned into its upper-case form.\<close>

definition ascii_upper :: "char \<Rightarrow> char" where
  "ascii_upper c = (if is_lower c then char_of (of_char c - (32::nat)) else c)"

text \<open>
  The Euclidean length of a lattice vector, and the distance between two consecutive
  atomic layers of the slab that the builder makes for a face and a lattice constant.
\<close>

definition vec_norm :: "real list \<Rightarrow> real" where
  "vec_norm v = sqrt (sum_list (map (\<lambda>c. c\<^sup>2) v))"

definition layer_spacing :: "string \<Rightarrow> real \<Rightarrow> real" where
  "layer_spacing face a = (if face = ''111'' then a / sqrt 3 else a / 2)"

text \<open>
  A surface atom as the specification words it: an atom of the structure whose height is
  within the band of 1.5 below the maximum height of all atoms. The Euclidean distance
  between two atoms.
\<close>

definition spec_surface_atom :: "MaterialStructure \<Rightarrow> Atom \<Rightarrow> bool" where
  "spec_surface_atom s a \<longleftrightarrow>
     a \<in> set (atoms s) \<and> Max (z ` set (atoms s)) - 3 / 2 < z a"

definition euclidean_distance :: "Atom \<Rightarrow> Atom \<Rightarrow> real" where
  "euclidean_distance a b = sqrt ((x a - x b)\<^sup>2 + (y a - y b)\<^sup>2 + (z a - z b)\<^sup>2)"

section \<open>Example inputs\<close>

text \<open>
  A structure without atoms; two gold atoms 2.5 apart, with a random source whose third
  value passes the bridge test, and the sites that the analysis of the pair returns for
  the adsorbate CO; nine copper atoms in a row, 4 apart, with a random source that keeps
  every on-top site and then gives decreasing noise.
\<close>

definition empty_slab :: MaterialStructure where
  "empty_slab =
     \<lparr>formula = ''Au'', mpId = None, millerIndex = None, description = ''no atoms'',
      formationEnergy = None, bandGap = None, symmetry = None,
      atoms = [], latticeVectors = None\<rparr>"

definition pair_slab :: MaterialStructure where
  "pair_slab =
     \<lparr>formula = ''Au'', mpId = None, millerIndex = None, description = ''two atoms'',
      formationEnergy = None, bandGap = None, symmetry = None,
      atoms = [createAtom ''Au'' 0 0 0 0, createAtom ''Au'' (5 / 2) 0 0 1],
      latticeVectors = None\<rparr>"

definition pair_rnd :: rng where
  "pair_rnd k = (if k = 2 then 9 / 10 else 1 / 2)"

definition pair_sites :: "AdsorptionSite list" where
  "pair_sites =
     [\<lparr>site_id = ''hollow-1'', type = Hollow,
        coordinates = (6 / 5, 4 / 5, Num (3 / 2)), energy = - (5 / 4),
        description = ''fcc hollow''\<rparr>,
      \<lparr>site_id = ''brg-0-1'', type = Bridge,
        coordinates = (5 / 4, 0, Num (9 / 5)), energy = - (13 / 20),
        description = ''Bridge site''\<rparr>,
      \<lparr>site_id = ''top-0'', type = Top, coordinates = (0, 0, Num 2),
        energy = 1 / 20, description = ''On-top of atom #0''\<rparr>,
      \<lparr>site_id = ''top-1'', type = Top, coordinates = (5 / 2, 0, Num 2),
        energy = 1 / 20, description = ''On-top of atom #1''\<rparr>]"

definition row_slab :: MaterialStructure where
  "row_slab =
     \<lparr>formula = ''Cu'', mpId = None, millerIndex = None, description = ''nine atoms in a row'',
      formationEnergy = None, bandGap = None, symmetry = None,
      atoms = map (\<lambda>i. createAtom ''Cu'' (4 * real i) 0 0 i) [0..<9],
      latticeVectors = None\<rparr>"

definition row_rnd :: rng where
  "row_rnd k = (if k < 9 then 0 else (20 - real k) / 20)"

text \<open>
  Two gold atoms at height 0, \<open>\<surd>8\<close> apart, above a third atom at height -2 that lies
  within bridging distance of both but below the surface band; and the sites that the
  analysis returns for it with the adsorbate CO and the random source of the pair.
\<close>

definition band_slab :: MaterialStructure where
  "band_slab =
     \<lparr>formula = ''Au'', mpId = None, millerIndex = None, description = ''two layers'',
      formationEnergy = None, bandGap = None, symmetry = None,
      atoms = [createAtom ''Au'' 0 0 0 0, createAtom ''Au'' 2 2 0 1,
               createAtom ''Au'' 1 1 (- 2) 2],
      latticeVectors = None\<rparr>"

definition band_sites :: "AdsorptionSite list" where
  "band_sites =
     [\<lparr>site_id = ''hollow-1'', type = Hollow,
        coordinates = (6 / 5, 4 / 5, Num (3 / 2)), energy = - (5 / 4),
        description = ''fcc hollow''\<rparr>,
      \<lparr>site_id = ''brg-0-1'', type = Bridge,
        coordinates = (1, 1, Num (9 / 5)), energy = - (13 / 20),
        description = ''Bridge site''\<rparr>,
      \<lparr>site_id = ''top-0'', type = Top, coordinates = (0, 0, Num 2),
        energy = 1 / 20, description = ''On-top of atom #0''\<rparr>,
      \<lparr>site_id = ''top-1'', type = Top, coordinates = (2, 2, Num 2),
        energy = 1 / 20, description = ''On-top of atom #1''\<rparr>]"

section \<open>Auxiliary facts\<close>

lemma fold_invariant:
  assumes "P st" and "\<And>v st'. v \<in> set vs \<Longrightarrow> P st' \<Longrightarrow> P (f v st')"
  shows "P (fold f vs st)"
  using assms by (induction vs arbitrary: st) auto

lemma Cu_props:
  "ELEMENT_PROPERTIES ''Cu'' =
     Some \<lparr>latticeConstant = 3615 / 1000, mpId = ''mp-30'', formationEnergy = 0,
           bandGap = 0, symmetry = ''Fm-3m'', electronegativity = 190 / 100\<rparr>"
  by (simp add: ELEMENT_PROPERTIES_def)

lemma props_or_default_total: "\<exists>p. props_or_default el = Some p"
  by (simp add: props_or_default_def Cu_props split: option.splits)

subsection \<open>Surface atoms\<close>

lemma foldl_jsnum_max_Num:
  "\<exists>m. foldl jsnum_max (Num v) vs = Num m \<and> v \<le> m \<and> (\<forall>w\<in>set vs. w \<le> m) \<and> m \<in> insert v (set vs)"
proof (induction vs arbitrary: v)
  case Nil
  then show ?case by simp
next
  case (Cons w ws)
  obtain m where m: "foldl jsnum_max (Num (max v w)) ws = Num m" "max v w \<le> m"
    "\<forall>u\<in>set ws. u \<le> m" "m \<in> insert (max v w) (set ws)"
    using Cons.IH [of "max v w"] by blast
  then show ?case by (auto simp: max_def split: if_splits)
qed

lemma Math_max_Nil: "Math_max [] = NegInfinity"
  by (simp add: Math_max_def)

lemma Math_max_Cons:
  "\<exists>m. Math_max (v # vs) = Num m \<and> (\<forall>w\<in>set (v # vs). w \<le> m) \<and> m \<in> set (v # vs)"
  using foldl_jsnum_max_Num [of v vs] by (auto simp: Math_max_def)

lemma surfaceAtoms_of_Nil: "atoms s = [] \<Longrightarrow> surfaceAtoms_of s = []"
  by (simp add: surfaceAtoms_of_def)

lemma surfaceAtoms_of_nonempty:
  assumes "atoms s \<noteq> []"
  shows "surfaceAtoms_of s \<noteq> []"
proof -
  obtain a as where as: "atoms s = a # as" using assms by (cases "atoms s") auto
  obtain m where m: "maxY_of s = Num m" "m \<in> set (map z (atoms s))"
    using Math_max_Cons [of "z a" "map z as"] by (auto simp: maxY_of_def as)
  then obtain b where b: "b \<in> set (atoms s)" "z b = m" by auto
  then have "b \<in> set (surfaceAtoms_of s)"
    by (simp add: surfaceAtoms_of_def m)
  then show ?thesis by auto
qed

lemma surfaceAtoms_subset: "set (surfaceAtoms_of s) \<subseteq> set (atoms s)"
  by (auto simp: surfaceAtoms_of_def)

lemma candidate_sites_Nil: "candidate_sites rnd [] = ([], 0)"
  by (simp add: candidate_sites_def)

subsection \<open>Candidate sites and scoring\<close>

text \<open>The distance window without the square root, for evaluation.\<close>

lemma sqrt_window: "(sqrt v < 3 \<and> sqrt v > 2) \<longleftrightarrow> (v < 9 \<and> v > 4)"
proof -
  have "sqrt v < 3 \<longleftrightarrow> v < 9"
    using real_sqrt_less_iff [of v 9] by simp
  moreover have "sqrt v > 2 \<longleftrightarrow> v > 4"
    using real_sqrt_less_iff [of 4 v] by simp
  ultimately show ?thesis by simp
qed

lemma bridge_step_code [code]:
  "bridge_step rnd surfaceAtoms i j st =
     (case st of (sites_acc, n) \<Rightarrow>
       let a1 = surfaceAtoms ! i;
           a2 = surfaceAtoms ! j;
           d2 = (x a1 - x a2)\<^sup>2 + (y a1 - y a2)\<^sup>2 + (z a1 - z a2)\<^sup>2
       in if d2 < 9 \<and> d2 > 4 then
            (if rnd n > 8 / 10 then (sites_acc @ [bridge_site a1 a2], Suc n)
             else (sites_acc, Suc n))
          else (sites_acc, n))"
  by (simp add: bridge_step_def pair_dist_def Let_def sqrt_window split: prod.splits)


lemma top_step_ok:
  "a \<in> set sa \<Longrightarrow> \<forall>s\<in>set (fst st). candidate_ok sa s \<Longrightarrow>
   \<forall>s\<in>set (fst (top_step rnd a st)). candidate_ok sa s"
  by (cases st) (auto simp: top_step_def candidate_ok_def)

lemma bridge_step_ok:
  "i < j \<Longrightarrow> j < length sa \<Longrightarrow> \<forall>s\<in>set (fst st). candidate_ok sa s \<Longrightarrow>
   \<forall>s\<in>set (fst (bridge_step rnd sa i j st)). candidate_ok sa s"
  by (cases st) (auto simp: bridge_step_def candidate_ok_def Let_def)

lemma candidate_sites_ok:
  "\<forall>s\<in>set (fst (candidate_sites rnd sa)). candidate_ok sa s"
  unfolding candidate_sites_def
proof (rule fold_invariant, rule fold_invariant)
  show "\<forall>s\<in>set (fst ([], 0::nat)). candidate_ok sa s" by simp
next
  fix a and st' :: "AdsorptionSite list \<times> nat"
  assume "a \<in> set sa" "\<forall>s\<in>set (fst st'). candidate_ok sa s"
  then show "\<forall>s\<in>set (fst (top_step rnd a st')). candidate_ok sa s"
    by (rule top_step_ok)
next
  fix i and st' :: "AdsorptionSite list \<times> nat"
  assume i: "i \<in> set [0..<length sa]" and inv: "\<forall>s\<in>set (fst st'). candidate_ok sa s"
  show "\<forall>s\<in>set (fst (fold (\<lambda>j. bridge_step rnd sa i j) [i + 1..<length sa] st')).
           candidate_ok sa s"
  proof (rule fold_invariant)
    show "\<forall>s\<in>set (fst st'). candidate_ok sa s" by (rule inv)
  next
    fix j and st'' :: "AdsorptionSite list \<times> nat"
    assume "j \<in> set [i + 1..<length sa]" "\<forall>s\<in>set (fst st''). candidate_ok sa s"
    then show "\<forall>s\<in>set (fst (bridge_step rnd sa i j st'')). candidate_ok sa s"
      by (intro bridge_step_ok) auto
  qed
qed

lemma add_hollow_cases:
  "add_hollow sa maxY cs = Inr all_sites \<Longrightarrow> s \<in> set all_sites \<Longrightarrow>
   s \<in> set cs \<or> (\<exists>a0 rest. sa = a0 # rest \<and> s = hollow_site a0 maxY)"
  by (auto simp: add_hollow_def split: if_splits list.splits)

lemma score_member_acc:
  "s' \<in> set (fst (fold (score_step rnd b) cs (acc, n))) \<Longrightarrow>
   s' \<in> set acc \<or>
   (\<exists>s\<in>set cs. \<exists>k. s' = s\<lparr>energy := b + siteFactor (type s) + (rnd k - 1 / 2) * (2 / 10)\<rparr>)"
proof (induction cs arbitrary: acc n)
  case Nil
  then show ?case by simp
next
  case (Cons c cs)
  have step: "score_step rnd b c (acc, n) =
      (acc @ [c\<lparr>energy := b + siteFactor (type c) + (rnd n - 1 / 2) * (2 / 10)\<rparr>], Suc n)"
    by (simp add: score_step_def)
  from Cons.prems
  have "s' \<in> set (fst (fold (score_step rnd b) cs
          (acc @ [c\<lparr>energy := b + siteFactor (type c) + (rnd n - 1 / 2) * (2 / 10)\<rparr>], Suc n)))"
    by (simp only: fold_simps step)
  from Cons.IH [OF this] show ?case by auto
qed

lemma score_member:
  assumes "s' \<in> set (fst (fold (score_step rnd b) cs ([], n)))"
  shows "\<exists>s\<in>set cs. \<exists>k. s' = s\<lparr>energy := b + siteFactor (type s) + (rnd k - 1 / 2) * (2 / 10)\<rparr>"
  using score_member_acc [OF assms] by simp

lemma analysis_unfold:
  assumes "calculateAdsorptionPhysics rnd s adsorbate = Inr r"
  shows "\<exists>all_sites p.
           add_hollow (surfaceAtoms_of s) (maxY_of s)
             (fst (candidate_sites rnd (surfaceAtoms_of s))) = Inr all_sites \<and>
           props_or_default (formula s) = Some p \<and>
           sites r = take 8 (sort_key energy (fst (fold
             (score_step rnd (- (1 / 2) * \<bar>electronegativity p - enAds_of adsorbate\<bar>))
             all_sites ([], snd (candidate_sites rnd (surfaceAtoms_of s))))))"
  using assms
  by (auto simp: calculateAdsorptionPhysics_def Let_def split: sum.splits option.splits)

lemma analysis_sites:
  assumes "calculateAdsorptionPhysics rnd s adsorbate = Inr r" and "site \<in> set (sites r)"
  shows "\<exists>c k p. shape_ok s c \<and> props_or_default (formula s) = Some p \<and>
           site = c\<lparr>energy := - (1 / 2) * \<bar>electronegativity p - enAds_of adsorbate\<bar> +
                               siteFactor (type c) + (rnd k - 1 / 2) * (2 / 10)\<rparr>"
proof -
  from analysis_unfold [OF assms(1)] obtain all_sites p where
    h: "add_hollow (surfaceAtoms_of s) (maxY_of s)
             (fst (candidate_sites rnd (surfaceAtoms_of s))) = Inr all_sites"
    and p: "props_or_default (formula s) = Some p"
    and r: "sites r = take 8 (sort_key energy (fst (fold
             (score_step rnd (- (1 / 2) * \<bar>electronegativity p - enAds_of adsorbate\<bar>))
             all_sites ([], snd (candidate_sites rnd (surfaceAtoms_of s))))))"
    by blast
  let ?b = "- (1 / 2) * \<bar>electronegativity p - enAds_of adsorbate\<bar>"
  let ?scored = "fst (fold (score_step rnd ?b) all_sites
                   ([], snd (candidate_sites rnd (surfaceAtoms_of s))))"
  have "site \<in> set (sort_key energy ?scored)"
    using assms(2) r by (auto dest: in_set_takeD)
  then have "site \<in> set ?scored" by simp
  then obtain c k where c: "c \<in> set all_sites"
    "site = c\<lparr>energy := ?b + siteFactor (type c) + (rnd k - 1 / 2) * (2 / 10)\<rparr>"
    using score_member by blast
  have "shape_ok s c"
    using add_hollow_cases [OF h c(1)] candidate_sites_ok [of rnd "surfaceAtoms_of s"]
    by (auto simp: shape_ok_def)
  with c(2) p show ?thesis by blast
qed

lemma analysis_succeeds:
  assumes "atoms s \<noteq> []"
  shows "\<exists>r. calculateAdsorptionPhysics rnd s adsorbate = Inr r"
proof -
  obtain a0 rest where "surfaceAtoms_of s = a0 # rest"
    using surfaceAtoms_of_nonempty [OF assms] by (cases "surfaceAtoms_of s") auto
  moreover obtain p where "props_or_default (formula s) = Some p"
    using props_or_default_total by blast
  ultimately show ?thesis
    by (simp add: calculateAdsorptionPhysics_def Let_def add_hollow_def)
qed

lemma ranked_sites_code [code]:
  "ranked_sites rnd structure adsorbate =
     (let surfaceAtoms = surfaceAtoms_of structure;
          found = candidate_sites rnd surfaceAtoms
      in case add_hollow surfaceAtoms (maxY_of structure) (fst found) of
           Inl e \<Rightarrow> Inl e
         | Inr all_sites \<Rightarrow>
             (case props_or_default (formula structure) of
                None \<Rightarrow> Inl (TypeError ''electronegativity'')
              | Some props \<Rightarrow>
                  Inr (take 8 (sort_key energy (fst (fold
                    (score_step rnd
                       (- (1 / 2) * \<bar>electronegativity props - enAds_of adsorbate\<bar>))
                    all_sites ([], snd found)))))))"
  by (simp add: ranked_sites_def calculateAdsorptionPhysics_def Let_def
      split: sum.splits option.splits)

lemma ranked_sites_Inr:
  "ranked_sites rnd s adsorbate = Inr ss \<Longrightarrow>
   \<exists>r. calculateAdsorptionPhysics rnd s adsorbate = Inr r \<and> sites r = ss"
  by (cases "calculateAdsorptionPhysics rnd s adsorbate") (auto simp: ranked_sites_def)

lemma pair_run: "ranked_sites pair_rnd pair_slab ''CO'' = Inr pair_sites"
  unfolding pair_sites_def by code_simp

lemma pair_result:
  "\<exists>r. calculateAdsorptionPhysics pair_rnd pair_slab ''CO'' = Inr r \<and> sites r = pair_sites"
  by (rule ranked_sites_Inr [OF pair_run])


lemma row_run:
  "map_sum id (map (\<lambda>c. (site_id c, energy c))) (ranked_sites row_rnd row_slab ''CO'') =
     Inr [(''top-8'', - (17 / 50)), (''top-7'', - (33 / 100)), (''top-6'', - (8 / 25)),
          (''top-5'', - (31 / 100)), (''top-4'', - (3 / 10)), (''top-3'', - (29 / 100)),
          (''top-2'', - (7 / 25)), (''top-1'', - (27 / 100))]"
  by code_simp


lemma shape_ok_type:
  "shape_ok s c \<Longrightarrow> type c = Top \<or> type c = Bridge \<or> type c = Hollow"
  by (auto simp: shape_ok_def candidate_ok_def top_site_def bridge_site_def hollow_site_def)

subsection \<open>Surface atoms and distances as the specification words them\<close>

lemma Math_max_eq_Max:
  assumes "vs \<noteq> []"
  shows "Math_max vs = Num (Max (set vs))"
proof -
  obtain v ws where vs: "vs = v # ws" using assms by (cases vs) auto
  from Math_max_Cons [of v ws] obtain m where
    m: "Math_max (v # ws) = Num m" "\<forall>w\<in>set (v # ws). w \<le> m" "m \<in> set (v # ws)"
    by blast
  have "Max (set (v # ws)) = m"
    by (rule Max_eqI) (use m in auto)
  with m(1) show ?thesis by (simp add: vs)
qed

lemma surfaceAtoms_spec:
  "a \<in> set (surfaceAtoms_of s) \<longleftrightarrow> spec_surface_atom s a"
proof (cases "atoms s = []")
  case True
  then show ?thesis by (simp add: surfaceAtoms_of_def spec_surface_atom_def)
next
  case False
  then have "maxY_of s = Num (Max (z ` set (atoms s)))"
    using Math_max_eq_Max [of "map z (atoms s)"] by (simp add: maxY_of_def)
  then show ?thesis
    by (auto simp: surfaceAtoms_of_def spec_surface_atom_def)
qed

lemma pair_dist_euclidean: "pair_dist a b = euclidean_distance a b"
  by (simp add: pair_dist_def euclidean_distance_def)

lemma filter_nth_one:
  assumes "j < length (filter P vs)"
  shows "\<exists>j'. j' < length vs \<and> vs ! j' = filter P vs ! j"
proof -
  from assms have "filter P vs ! j \<in> set vs"
    using nth_mem [OF assms] by auto
  then show ?thesis by (auto simp: in_set_conv_nth)
qed

lemma filter_nth_pair:
  "i < j \<Longrightarrow> j < length (filter P vs) \<Longrightarrow>
   \<exists>i' j'. i' < j' \<and> j' < length vs \<and> vs ! i' = filter P vs ! i \<and> vs ! j' = filter P vs ! j"
proof (induction vs arbitrary: i j)
  case Nil
  then show ?case by simp
next
  case (Cons v vs)
  show ?case
  proof (cases "P v")
    case False
    with Cons.prems have "j < length (filter P vs)" by simp
    from Cons.IH [OF Cons.prems(1) this] obtain i' j' where
      "i' < j'" "j' < length vs" "vs ! i' = filter P vs ! i" "vs ! j' = filter P vs ! j"
      by blast
    then have "Suc i' < Suc j' \<and> Suc j' < length (v # vs) \<and>
        (v # vs) ! Suc i' = filter P (v # vs) ! i \<and> (v # vs) ! Suc j' = filter P (v # vs) ! j"
      using False by simp
    then show ?thesis by blast
  next
    case True
    from Cons.prems obtain j0 where j: "j = Suc j0" by (cases j) auto
    with Cons.prems True have j0: "j0 < length (filter P vs)" by simp
    show ?thesis
    proof (cases i)
      case 0
      from filter_nth_one [OF j0] obtain j' where
        "j' < length vs" "vs ! j' = filter P vs ! j0" by blast
      then have "0 < Suc j' \<and> Suc j' < length (v # vs) \<and>
        (v # vs) ! 0 = filter P (v # vs) ! i \<and> (v # vs) ! Suc j' = filter P (v # vs) ! j"
        using True 0 j by simp
      then show ?thesis by blast
    next
      case (Suc i0)
      with Cons.prems j have "i0 < j0" by simp
      from Cons.IH [OF this j0] obtain i' j' where
        "i' < j'" "j' < length vs" "vs ! i' = filter P vs ! i0" "vs ! j' = filter P vs ! j0"
        by blast
      then have "Suc i' < Suc j' \<and> Suc j' < length (v # vs) \<and>
        (v # vs) ! Suc i' = filter P (v # vs) ! i \<and> (v # vs) ! Suc j' = filter P (v # vs) ! j"
        using True Suc j by simp
      then show ?thesis by blast
    qed
  qed
qed

lemma surface_pair:
  assumes "i < j" and "j < length (surfaceAtoms_of s)"
  shows "\<exists>i' j'. i' < j' \<and> j' < length (atoms s) \<and>
           atoms s ! i' = surfaceAtoms_of s ! i \<and> atoms s ! j' = surfaceAtoms_of s ! j \<and>
           spec_surface_atom s (atoms s ! i') \<and> spec_surface_atom s (atoms s ! j')"
proof -
  from assms have i: "i < length (surfaceAtoms_of s)" by simp
  have si: "spec_surface_atom s (surfaceAtoms_of s ! i)"
    using nth_mem [OF i] by (simp add: surfaceAtoms_spec)
  have sj: "spec_surface_atom s (surfaceAtoms_of s ! j)"
    using nth_mem [OF assms(2)] by (simp add: surfaceAtoms_spec)
  from assms obtain i' j' where
    p: "i' < j'" "j' < length (atoms s)"
    "atoms s ! i' = surfaceAtoms_of s ! i" "atoms s ! j' = surfaceAtoms_of s ! j"
    using filter_nth_pair [of i j _ "atoms s"] unfolding surfaceAtoms_of_def by blast
  from si sj have "spec_surface_atom s (atoms s ! i')" "spec_surface_atom s (atoms s ! j')"
    by (simp_all add: p(3,4))
  with p show ?thesis
    by (intro exI [where x = i'] exI [where x = j'] conjI)
qed

lemma band_run: "ranked_sites pair_rnd band_slab ''CO'' = Inr band_sites"
  unfolding band_sites_def by code_simp

lemma band_result:
  "\<exists>r. calculateAdsorptionPhysics pair_rnd band_slab ''CO'' = Inr r \<and> sites r = band_sites"
  by (rule ranked_sites_Inr [OF band_run])

subsection \<open>The two patterns\<close>

lemma miller_groupD:
  "miller_group g \<Longrightarrow>
   \<exists>d1 d2 d3. g = [CHR ''('', d1, d2, d3, CHR '')''] \<and> is_digit d1 \<and> is_digit d2 \<and> is_digit d3"
  by (auto simp: miller_group_def split: list.splits)

lemma miller_groupI:
  "is_digit d1 \<Longrightarrow> is_digit d2 \<Longrightarrow> is_digit d3 \<Longrightarrow>
   miller_group [CHR ''('', d1, d2, d3, CHR '')'']"
  by (simp add: miller_group_def)

lemma faceMatch_Cons:
  "faceMatch (c # cs) =
     (if miller_group (take 5 (c # cs)) then Some (take 3 cs) else faceMatch cs)"
proof (cases cs)
  case Nil
  then show ?thesis by (simp add: miller_group_def)
next
  case (Cons d1 cs1)
  show ?thesis
  proof (cases cs1)
    case Nil
    then show ?thesis using Cons by (simp add: miller_group_def)
  next
    case (Cons d2 cs2)
    note c2 = this
    show ?thesis
    proof (cases cs2)
      case Nil
      then show ?thesis using \<open>cs = d1 # cs1\<close> c2 by (simp add: miller_group_def)
    next
      case (Cons d3 cs3)
      note c3 = this
      show ?thesis
      proof (cases cs3)
        case Nil
        then show ?thesis using \<open>cs = d1 # cs1\<close> c2 c3 by (simp add: miller_group_def)
      next
        case (Cons b cs4)
        then show ?thesis using \<open>cs = d1 # cs1\<close> c2 c3 by (simp add: miller_group_def)
      qed
    qed
  qed
qed

lemma group_at_head:
  assumes "c # cs = g @ post" and "miller_group g"
  shows "take 5 (c # cs) = g"
  using assms by (auto dest!: miller_groupD)

lemma faceMatch_spec:
  "case faceMatch q of
     None \<Rightarrow> \<not> (\<exists>pre g post. q = pre @ g @ post \<and> miller_group g)
   | Some ds \<Rightarrow>
       \<exists>pre post. q = pre @ (CHR ''('' # ds @ '')'') @ post \<and>
         miller_group (CHR ''('' # ds @ '')'') \<and>
         (\<forall>pre' g' post'. q = pre' @ g' @ post' \<and> miller_group g' \<longrightarrow> length pre \<le> length pre')"
proof (induction q)
  case Nil
  then show ?case by (auto dest!: miller_groupD)
next
  case (Cons c cs)
  show ?case
  proof (cases "miller_group (take 5 (c # cs))")
    case True
    then obtain d1 d2 d3 where g: "take 5 (c # cs) = [CHR ''('', d1, d2, d3, CHR '')'']"
      by (auto dest!: miller_groupD)
    then have ds: "take 3 cs = [d1, d2, d3]"
      by (cases cs; simp; cases "tl cs"; simp; cases "tl (tl cs)"; simp)
    have "c # cs = [CHR ''('', d1, d2, d3, CHR '')''] @ drop 5 (c # cs)"
      by (metis g append_take_drop_id)
    then have d: "c # cs = [] @ (CHR ''('' # take 3 cs @ '')'') @ drop 5 (c # cs)"
      unfolding ds by simp
    have m: "miller_group (CHR ''('' # take 3 cs @ '')'')"
      using True unfolding g ds by simp
    have ex: "\<exists>pre post. c # cs = pre @ (CHR ''('' # take 3 cs @ '')'') @ post \<and>
         miller_group (CHR ''('' # take 3 cs @ '')'') \<and>
         (\<forall>pre' g' post'. c # cs = pre' @ g' @ post' \<and> miller_group g' \<longrightarrow>
            length pre \<le> length pre')"
    proof (intro exI conjI)
      show "c # cs = [] @ (CHR ''('' # take 3 cs @ '')'') @ drop 5 (c # cs)" by (rule d)
      show "miller_group (CHR ''('' # take 3 cs @ '')'')" by (rule m)
      show "\<forall>pre' g' post'. c # cs = pre' @ g' @ post' \<and> miller_group g' \<longrightarrow>
            length ([]::string) \<le> length pre'" by simp
    qed
    have fm: "faceMatch (c # cs) = Some (take 3 cs)"
      using True by (simp only: faceMatch_Cons if_True)
    show ?thesis unfolding fm by (simp only: option.case) (rule ex)
  next
    case False
    have head: "pre' \<noteq> []" if "c # cs = pre' @ g' @ post'" "miller_group g'" for pre' g' post'
    proof
      assume "pre' = []"
      with that have "take 5 (c # cs) = g'" using group_at_head [of c cs g' post'] by simp
      with that(2) False show False by simp
    qed
    have fm: "faceMatch (c # cs) = faceMatch cs"
      using False by (simp only: faceMatch_Cons if_False)
    show ?thesis
    proof (cases "faceMatch cs")
      case None
      have "\<not> (\<exists>pre g post. c # cs = pre @ g @ post \<and> miller_group g)"
      proof
        assume "\<exists>pre g post. c # cs = pre @ g @ post \<and> miller_group g"
        then obtain pre g post where d: "c # cs = pre @ g @ post" "miller_group g" by blast
        from head [OF d] obtain pre0 where "pre = c # pre0" using d(1) by (cases pre) auto
        with d have "cs = pre0 @ g @ post" by simp
        with d(2) Cons.IH None show False by auto
      qed
      then show ?thesis by (simp only: fm None option.case simp_thms)
    next
      case (Some ds)
      with Cons.IH obtain pre post where
        p: "cs = pre @ (CHR ''('' # ds @ '')'') @ post" "miller_group (CHR ''('' # ds @ '')'')"
          "\<forall>pre' g' post'. cs = pre' @ g' @ post' \<and> miller_group g' \<longrightarrow> length pre \<le> length pre'"
        by auto
      have "c # cs = (c # pre) @ (CHR ''('' # ds @ '')'') @ post" using p(1) by simp
      moreover have "length (c # pre) \<le> length pre'"
        if d: "c # cs = pre' @ g' @ post'" "miller_group g'" for pre' g' post'
      proof -
        from head [OF d] obtain pre0 where pre0: "pre' = c # pre0" using d(1) by (cases pre') auto
        with d have "cs = pre0 @ g' @ post'" by simp
        with p(3) d(2) have "length pre \<le> length pre0" by blast
        then show ?thesis by (simp add: pre0)
      qed
      ultimately have "\<exists>pre post. c # cs = pre @ (CHR ''('' # ds @ '')'') @ post \<and>
         miller_group (CHR ''('' # ds @ '')'') \<and>
         (\<forall>pre' g' post'. c # cs = pre' @ g' @ post' \<and> miller_group g' \<longrightarrow>
            length pre \<le> length pre')"
        using p(2) by blast
      then show ?thesis by (simp only: fm Some option.case simp_thms)
    qed
  qed
qed

lemma elementMatch_spec:
  "case elementMatch q of
     None \<Rightarrow> \<not> (\<exists>w rest. q = w @ rest \<and> symbol_shaped w)
   | Some m \<Rightarrow>
       (\<exists>rest. q = m @ rest) \<and> symbol_shaped m \<and>
       (\<forall>w rest. q = w @ rest \<and> symbol_shaped w \<longrightarrow> length w \<le> length m)"
proof (cases q rule: elementMatch.cases)
  case 1
  then show ?thesis by (simp add: symbol_shaped_def)
next
  case (2 c)
  then show ?thesis
    by (auto simp: symbol_shaped_def append_eq_Cons_conv split: list.splits)
next
  case (3 c d cs)
  then show ?thesis
    by (auto simp: symbol_shaped_def append_eq_Cons_conv split: list.splits)
qed

subsection \<open>The atoms and the cell of a slab\<close>

lemma fold_append_map:
  assumes "\<And>v st. map h (fst (F v st)) = map h (fst st) @ g v"
  shows "map h (fst (fold F vs st)) = map h (fst st) @ concat (map g vs)"
  by (induction vs arbitrary: st) (simp_all add: assms)

lemma concat_singletons: "concat (map (\<lambda>i. [c]) vs) = replicate (length vs) c"
  by (induction vs) simp_all

lemma concat_pairs: "concat (map (\<lambda>i. [c, c]) vs) = replicate (2 * length vs) c"
  by (induction vs) simp_all

lemma concat_replicates: "concat (map (\<lambda>j. replicate n c) vs) = replicate (length vs * n) c"
  by (induction vs) (simp_all add: replicate_add)

lemma fcc100_cell_z:
  "map z (fst (fcc100_cell el d ls k j i st)) = map z (fst st) @ [real k * ls]"
  by (cases st) (simp add: fcc100_cell_def createAtom_def Let_def)

lemma fcc111_cell_z:
  "map z (fst (fcc111_cell el xd yd zs nx ny k j i st)) = map z (fst st) @ [real k * zs, real k * zs]"
  by (cases st) (simp add: fcc111_cell_def createAtom_def Let_def)

lemma fcc100_z:
  "map z (fst (fcc100 el a)) = concat (map (\<lambda>k. replicate 16 (real k * (a / 2))) [0..<4])"
proof -
  have inner: "map z (fst (fold (\<lambda>i. fcc100_cell el d ls k j i) [0..<4] st)) =
      map z (fst st) @ replicate 4 (real k * ls)" for d ls k j st
    using fold_append_map [of z "\<lambda>i. fcc100_cell el d ls k j i" "\<lambda>i. [real k * ls]" "[0..<4]" st]
    by (simp add: fcc100_cell_z map_replicate_const)
  have middle: "map z (fst (fold (\<lambda>j. fold (\<lambda>i. fcc100_cell el d ls k j i) [0..<4]) [0..<4] st)) =
      map z (fst st) @ replicate 16 (real k * ls)" for d ls k st
    using fold_append_map [of z "\<lambda>j. fold (\<lambda>i. fcc100_cell el d ls k j i) [0..<4]"
        "\<lambda>j. replicate 4 (real k * ls)" "[0..<4]" st]
    by (simp add: inner concat_replicates)
  have outer: "map z (fst (fold (\<lambda>k. fold (\<lambda>j. fold (\<lambda>i. fcc100_cell el d ls k j i) [0..<4])
        [0..<4]) [0..<4] st)) =
      map z (fst st) @ concat (map (\<lambda>k. replicate 16 (real k * ls)) [0..<4])" for d ls st
    using fold_append_map [of z "\<lambda>k. fold (\<lambda>j. fold (\<lambda>i. fcc100_cell el d ls k j i) [0..<4]) [0..<4]"
        "\<lambda>k. replicate 16 (real k * ls)" "[0..<4]" st]
    by (simp add: middle)
  show ?thesis
    by (simp add: fcc100_def Let_def outer)
qed

lemma fcc111_z:
  "map z (fst (fcc111 el a)) = concat (map (\<lambda>k. replicate 18 (real k * (a / sqrt 3))) [0..<4])"
proof -
  have inner: "map z (fst (fold (\<lambda>i. fcc111_cell el xd yd zs nx ny k j i) [0..<3] st)) =
      map z (fst st) @ replicate 6 (real k * zs)" for xd yd zs nx ny k j st
    using fold_append_map [of z "\<lambda>i. fcc111_cell el xd yd zs nx ny k j i"
        "\<lambda>i. [real k * zs, real k * zs]" "[0..<3]" st]
    by (simp add: fcc111_cell_z concat_pairs)
  have middle: "map z (fst (fold (\<lambda>j. fold (\<lambda>i. fcc111_cell el xd yd zs nx ny k j i) [0..<3])
        [0..<3] st)) =
      map z (fst st) @ replicate 18 (real k * zs)" for xd yd zs nx ny k st
    using fold_append_map [of z "\<lambda>j. fold (\<lambda>i. fcc111_cell el xd yd zs nx ny k j i) [0..<3]"
        "\<lambda>j. replicate 6 (real k * zs)" "[0..<3]" st]
    by (simp add: inner concat_replicates)
  have outer: "map z (fst (fold (\<lambda>k. fold (\<lambda>j. fold (\<lambda>i.
        fcc111_cell el xd yd zs nx ny k j i) [0..<3]) [0..<3]) [0..<4] st)) =
      map z (fst st) @ concat (map (\<lambda>k. replicate 18 (real k * zs)) [0..<4])"
    for xd yd zs nx ny st
    using fold_append_map [of z "\<lambda>k. fold (\<lambda>j. fold (\<lambda>i.
        fcc111_cell el xd yd zs nx ny k j i) [0..<3]) [0..<3]"
        "\<lambda>k. replicate 18 (real k * zs)" "[0..<4]" st]
    by (simp add: middle)
  show ?thesis
    by (simp add: fcc111_def Let_def outer)
qed

lemma length_concat_layers:
  "length (concat (map (\<lambda>k. replicate n (f k)) [0..<4])) = 4 * n"
  by (simp add: length_concat comp_def sum_list_triv)

lemma fcc100_length: "length (fst (fcc100 el a)) = 64"
proof -
  have "length (fst (fcc100 el a)) = length (map z (fst (fcc100 el a)))" by simp
  also have "\<dots> = 64" unfolding fcc100_z by (simp add: length_concat_layers)
  finally show ?thesis .
qed

lemma fcc111_length: "length (fst (fcc111 el a)) = 72"
proof -
  have "length (fst (fcc111 el a)) = length (map z (fst (fcc111 el a)))" by simp
  also have "\<dots> = 72" unfolding fcc111_z by (simp add: length_concat_layers)
  finally show ?thesis .
qed

lemma fcc100_lattice:
  "snd (fcc100 el a) =
     [[a / sqrt 2 * 4, 0, 0], [0, a / sqrt 2 * 4, 0], [0, 0, 4 * (a / 2) + 10]]"
  by (simp add: fcc100_def Let_def)

lemma fcc111_lattice:
  "snd (fcc111 el a) =
     [[a / sqrt 2 * 3, 0, 0], [0, a * sqrt 6 / 2 * 3, 0], [0, 0, 4 * (a / sqrt 3) + 10]]"
  by (simp add: fcc111_def Let_def)

subsection \<open>The result of the builder\<close>

lemma ELEMENT_PROPERTIES_positive:
  "ELEMENT_PROPERTIES el = Some p \<Longrightarrow> 0 < latticeConstant p"
  by (auto simp: ELEMENT_PROPERTIES_def split: if_splits)

lemma props_or_default_positive:
  "props_or_default el = Some p \<Longrightarrow> 0 < latticeConstant p"
  by (auto simp: props_or_default_def split: option.splits dest: ELEMENT_PROPERTIES_positive)

lemma props_or_default_Cu:
  "props_or_default ''Cu'' = Some p \<Longrightarrow> latticeConstant p = 3615 / 1000"
  by (auto simp: props_or_default_def Cu_props)

lemma build_result:
  assumes "props_or_default (parse_element q) = Some props"
  shows "generateSlabStructure q =
     Inr \<lparr>formula = parse_element q,
          mpId = Some (ElementData.mpId props),
          millerIndex = Some (''('' @ parse_face q @ '')''),
          description = parse_element q @ '' '' @ parse_face q @ '' Surface Slab (Simulated ASE)'',
          formationEnergy = Some (ElementData.formationEnergy props),
          bandGap = Some (ElementData.bandGap props),
          symmetry = Some (ElementData.symmetry props),
          atoms = fst (if parse_face q = ''111''
                       then fcc111 (parse_element q) (latticeConstant props)
                       else fcc100 (parse_element q) (latticeConstant props)),
          latticeVectors = Some (snd (if parse_face q = ''111''
                       then fcc111 (parse_element q) (latticeConstant props)
                       else fcc100 (parse_element q) (latticeConstant props)))\<rparr>"
  using assms by (simp add: generateSlabStructure_def Let_def)

lemma build_fields:
  "\<exists>s props. generateSlabStructure q = Inr s \<and>
     props_or_default (parse_element q) = Some props \<and>
     formula s = parse_element q \<and>
     millerIndex s = Some (''('' @ parse_face q @ '')'') \<and>
     atoms s = fst (if parse_face q = ''111''
                    then fcc111 (parse_element q) (latticeConstant props)
                    else fcc100 (parse_element q) (latticeConstant props)) \<and>
     latticeVectors s = Some (snd (if parse_face q = ''111''
                    then fcc111 (parse_element q) (latticeConstant props)
                    else fcc100 (parse_element q) (latticeConstant props)))"
proof -
  obtain props where p: "props_or_default (parse_element q) = Some props"
    using props_or_default_total by blast
  show ?thesis
    by (simp add: build_result [OF p] p)
qed

lemma vec_norm_normal: "0 \<le> c \<Longrightarrow> vec_norm [0, 0, c] = c"
  by (simp add: vec_norm_def)

lemma parse_Au111: "parse_element ''Au(111)'' = ''Au'' \<and> parse_face ''Au(111)'' = ''111''"
  by (simp add: parse_element_def parse_face_def is_upper_def is_lower_def is_digit_def)

lemma parse_Cu100: "parse_element ''Cu(100)'' = ''Cu'' \<and> parse_face ''Cu(100)'' = ''100''"
  by (simp add: parse_element_def parse_face_def is_upper_def is_lower_def is_digit_def)

lemma parse_garbage: "parse_element ''garbage'' = ''Cu'' \<and> parse_face ''garbage'' = ''111''"
  by (simp add: parse_element_def parse_face_def is_upper_def is_lower_def is_digit_def)

lemma parse_element_spec:
  "if \<exists>w rest. q = w @ rest \<and> symbol_shaped w
   then (\<exists>rest. q = parse_element q @ rest) \<and> symbol_shaped (parse_element q) \<and>
        (\<forall>w rest. q = w @ rest \<and> symbol_shaped w \<longrightarrow> length w \<le> length (parse_element q))
   else parse_element q = ''Cu''"
proof (cases "elementMatch q")
  case None
  with elementMatch_spec [of q] have ne: "\<not> (\<exists>w rest. q = w @ rest \<and> symbol_shaped w)"
    by simp
  have "parse_element q = ''Cu''" using None by (simp add: parse_element_def)
  then show ?thesis by (simp only: ne if_False)
next
  case (Some m)
  with elementMatch_spec [of q] have m: "(\<exists>rest. q = m @ rest) \<and> symbol_shaped m \<and>
       (\<forall>w rest. q = w @ rest \<and> symbol_shaped w \<longrightarrow> length w \<le> length m)"
    by simp
  then have ex: "\<exists>w rest. q = w @ rest \<and> symbol_shaped w" by blast
  have pe: "parse_element q = m" using Some by (simp add: parse_element_def)
  show ?thesis unfolding pe if_P [OF ex] by (rule m)
qed

lemma parse_face_spec:
  "if \<exists>pre g post. q = pre @ g @ post \<and> miller_group g
   then \<exists>pre g post. q = pre @ g @ post \<and> miller_group g \<and>
          ''('' @ parse_face q @ '')'' = g \<and>
          (\<forall>pre' g' post'. q = pre' @ g' @ post' \<and> miller_group g' \<longrightarrow>
             length pre \<le> length pre')
   else ''('' @ parse_face q @ '')'' = ''(111)''"
proof (cases "faceMatch q")
  case None
  with faceMatch_spec [of q] have ne: "\<not> (\<exists>pre g post. q = pre @ g @ post \<and> miller_group g)"
    by simp
  have "''('' @ parse_face q @ '')'' = ''(111)''" using None by (simp add: parse_face_def)
  then show ?thesis by (simp only: ne if_False)
next
  case (Some ds)
  with faceMatch_spec [of q] obtain pre post where
    m: "q = pre @ (CHR ''('' # ds @ '')'') @ post" "miller_group (CHR ''('' # ds @ '')'')"
       "\<forall>pre' g' post'. q = pre' @ g' @ post' \<and> miller_group g' \<longrightarrow> length pre \<le> length pre'"
    by auto
  have pf: "''('' @ parse_face q @ '')'' = CHR ''('' # ds @ '')''"
    using Some by (simp add: parse_face_def)
  from m have ex: "\<exists>pre g post. q = pre @ g @ post \<and> miller_group g" by blast
  have "\<exists>pre g post. q = pre @ g @ post \<and> miller_group g \<and>
          ''('' @ parse_face q @ '')'' = g \<and>
          (\<forall>pre' g' post'. q = pre' @ g' @ post' \<and> miller_group g' \<longrightarrow>
             length pre \<le> length pre')"
    by (rule exI [where x = pre], rule exI [where x = "CHR ''('' # ds @ '')''"],
        rule exI [where x = post]) (rule conjI [OF m(1) conjI [OF m(2) conjI [OF pf m(3)]]])
  with ex show ?thesis by (simp only: if_True)
qed

section \<open>The properties\<close>

subsection \<open>Table lookups\<close>

text \<open>
  Claim C3, as stated: for a symbol that is not a key of the tables, the lookup in the
  display table and in the physical table returns the record keyed \<open>X\<close>, with colour
  \<^verbatim>\<open>#FF00FF\<close> and radius 1.0, and both tables define the same fallback key. For the
  symbol \<open>Zz\<close> the colour that \<open>createAtom\<close> stores is not the string \<^verbatim>\<open>#FF00FF\<close>, the
  physical table has no key \<open>X\<close>, and the physical lookup yields the record of \<open>Cu\<close>.
\<close>

theorem lookup_fallback_counterexample:
  "CPK_COLORS ''Zz'' = None \<and> ELEMENT_PROPERTIES ''Zz'' = None \<and>
   color (createAtom ''Zz'' 0 0 0 0) \<noteq> Some ''#FF00FF'' \<and>
   CPK_COLORS ''X'' = Some ''#FF00FF'' \<and>
   ELEMENT_PROPERTIES ''X'' = None \<and>
   props_or_default ''Zz'' = ELEMENT_PROPERTIES ''Cu''"
  by (simp add: CPK_COLORS_def ELEMENT_PROPERTIES_def createAtom_def color_or_default_def
      props_or_default_def)

text \<open>
  Claim C3, amended: no lookup fails. For a symbol that is not a key of the display tables,
  \<open>createAtom\<close> stores a colour that equals the \<open>X\<close> entry \<^verbatim>\<open>#FF00FF\<close> up to the case
  of its letters, and the radius 1.0 of the \<open>X\<close> entry. For a symbol that is not a key of
  the physical table, the physical lookup yields the record of \<open>Cu\<close>. The display tables
  define the key \<open>X\<close>; the physical table does not, its fallback key is \<open>Cu\<close>.
\<close>

theorem lookup_fallback:
  "(CPK_COLORS el = None \<longrightarrow>
      (\<exists>c. color (createAtom el px py pz i) = Some c \<and>
           Some (map ascii_upper c) = CPK_COLORS ''X'' \<and> map ascii_upper c = ''#FF00FF'')) \<and>
   (ATOMIC_RADII el = None \<longrightarrow>
      radius (createAtom el px py pz i) = Some 1 \<and>
      radius (createAtom el px py pz i) = ATOMIC_RADII ''X'') \<and>
   (ELEMENT_PROPERTIES el = None \<longrightarrow> props_or_default el = ELEMENT_PROPERTIES ''Cu'') \<and>
   (\<exists>p. props_or_default el = Some p) \<and>
   ''X'' \<in> dom CPK_COLORS \<and> ''X'' \<in> dom ATOMIC_RADII \<and> ''X'' \<notin> dom ELEMENT_PROPERTIES \<and>
   ''Cu'' \<in> dom ELEMENT_PROPERTIES"
proof -
  have u: "map ascii_upper ''#ff00ff'' = ''#FF00FF''"
    by code_simp
  have xc: "CPK_COLORS ''X'' = Some ''#FF00FF''"
    by (simp add: CPK_COLORS_def)
  have c: "CPK_COLORS el = None \<longrightarrow>
      (\<exists>c. color (createAtom el px py pz i) = Some c \<and>
           Some (map ascii_upper c) = CPK_COLORS ''X'' \<and> map ascii_upper c = ''#FF00FF'')"
  proof
    assume n: "CPK_COLORS el = None"
    have c1: "color (createAtom el px py pz i) = Some ''#ff00ff''"
      using n by (simp add: createAtom_def color_or_default_def)
    have c2: "Some (map ascii_upper ''#ff00ff'') = CPK_COLORS ''X''"
      by (simp only: u xc)
    show "\<exists>c. color (createAtom el px py pz i) = Some c \<and>
           Some (map ascii_upper c) = CPK_COLORS ''X'' \<and> map ascii_upper c = ''#FF00FF''"
      by (rule exI [where x = "''#ff00ff''"]) (rule conjI [OF c1 conjI [OF c2 u]])
  qed
  have x: "ATOMIC_RADII ''X'' = Some 1"
    by (simp add: ATOMIC_RADII_def)
  have r: "ATOMIC_RADII el = None \<longrightarrow>
      radius (createAtom el px py pz i) = Some 1 \<and>
      radius (createAtom el px py pz i) = ATOMIC_RADII ''X''"
    by (simp add: createAtom_def radius_or_default_def x)
  have p: "ELEMENT_PROPERTIES el = None \<longrightarrow> props_or_default el = ELEMENT_PROPERTIES ''Cu''"
    by (simp add: props_or_default_def)
  have k: "''X'' \<in> dom CPK_COLORS \<and> ''X'' \<in> dom ATOMIC_RADII \<and>
      ''X'' \<notin> dom ELEMENT_PROPERTIES \<and> ''Cu'' \<in> dom ELEMENT_PROPERTIES"
    by (simp add: dom_def CPK_COLORS_def ATOMIC_RADII_def ELEMENT_PROPERTIES_def)
  show ?thesis
    by (rule conjI [OF c conjI [OF r conjI [OF p conjI [OF props_or_default_total k]]]])
qed

text \<open>Witness for C3: a symbol that none of the three tables holds.\<close>

theorem lookup_fallback_witness:
  "CPK_COLORS ''Unobtainium'' = None \<and> ATOMIC_RADII ''Unobtainium'' = None \<and>
   ELEMENT_PROPERTIES ''Unobtainium'' = None \<and>
   (\<exists>c. color (createAtom ''Unobtainium'' 1 2 3 4) = Some c \<and>
        map ascii_upper c = ''#FF00FF'') \<and>
   radius (createAtom ''Unobtainium'' 1 2 3 4) = Some 1 \<and>
   props_or_default ''Unobtainium'' = ELEMENT_PROPERTIES ''Cu''"
  using lookup_fallback [of "''Unobtainium''" 1 2 3 4]
  by (simp add: CPK_COLORS_def ATOMIC_RADII_def ELEMENT_PROPERTIES_def)

subsection \<open>Parsing the query\<close>

text \<open>
  Claim C6: the builder never fails. The formula of the structure is the longest prefix of
  the query that is an element symbol (one upper-case letter, optionally followed by one
  lower-case letter), and \<open>Cu\<close> when there is none; the Miller index is the leftmost group
  of three digits in parentheses of the query, and \<open>(111)\<close> when there is none. The query
  \<open>Au(111)\<close> yields \<open>Au\<close> and \<open>(111)\<close>; the query \<open>garbage\<close> yields \<open>Cu\<close> and \<open>(111)\<close>.
\<close>

theorem parse_query:
  "\<exists>s. generateSlabStructure q = Inr s \<and>
     (if \<exists>w rest. q = w @ rest \<and> symbol_shaped w
      then (\<exists>rest. q = formula s @ rest) \<and> symbol_shaped (formula s) \<and>
           (\<forall>w rest. q = w @ rest \<and> symbol_shaped w \<longrightarrow> length w \<le> length (formula s))
      else formula s = ''Cu'') \<and>
     (if \<exists>pre g post. q = pre @ g @ post \<and> miller_group g
      then \<exists>pre g post. q = pre @ g @ post \<and> miller_group g \<and> millerIndex s = Some g \<and>
             (\<forall>pre' g' post'. q = pre' @ g' @ post' \<and> miller_group g' \<longrightarrow>
                length pre \<le> length pre')
      else millerIndex s = Some ''(111)'') \<and>
     (q = ''Au(111)'' \<longrightarrow> formula s = ''Au'' \<and> millerIndex s = Some ''(111)'') \<and>
     (q = ''garbage'' \<longrightarrow> formula s = ''Cu'' \<and> millerIndex s = Some ''(111)'')"
proof -
  from build_fields [of q] obtain s where
    run: "generateSlabStructure q = Inr s" and
    f: "formula s = parse_element q" and
    m: "millerIndex s = Some (''('' @ parse_face q @ '')'')"
    by blast
  have e: "if \<exists>w rest. q = w @ rest \<and> symbol_shaped w
      then (\<exists>rest. q = formula s @ rest) \<and> symbol_shaped (formula s) \<and>
           (\<forall>w rest. q = w @ rest \<and> symbol_shaped w \<longrightarrow> length w \<le> length (formula s))
      else formula s = ''Cu''"
    unfolding f by (rule parse_element_spec)
  have g: "if \<exists>pre g post. q = pre @ g @ post \<and> miller_group g
      then \<exists>pre g post. q = pre @ g @ post \<and> miller_group g \<and> millerIndex s = Some g \<and>
             (\<forall>pre' g' post'. q = pre' @ g' @ post' \<and> miller_group g' \<longrightarrow>
                length pre \<le> length pre')
      else millerIndex s = Some ''(111)''"
    using parse_face_spec [of q] unfolding m by (simp only: option.inject)
  have au: "q = ''Au(111)'' \<longrightarrow> formula s = ''Au'' \<and> millerIndex s = Some ''(111)''"
    using parse_Au111 by (simp add: f m)
  have gb: "q = ''garbage'' \<longrightarrow> formula s = ''Cu'' \<and> millerIndex s = Some ''(111)''"
    using parse_garbage by (simp add: f m)
  show ?thesis
    by (rule exI [where x = s]) (rule conjI [OF run conjI [OF e conjI [OF g conjI [OF au gb]]]])
qed

text \<open>Witness for C6: the two queries that the claim names.\<close>

theorem parse_query_witness:
  "(\<exists>s. generateSlabStructure ''Au(111)'' = Inr s \<and>
        formula s = ''Au'' \<and> millerIndex s = Some ''(111)'') \<and>
   (\<exists>s. generateSlabStructure ''garbage'' = Inr s \<and>
        formula s = ''Cu'' \<and> millerIndex s = Some ''(111)'')"
proof
  from parse_query [of "''Au(111)''"]
  show "\<exists>s. generateSlabStructure ''Au(111)'' = Inr s \<and>
        formula s = ''Au'' \<and> millerIndex s = Some ''(111)''"
    by (elim exE conjE) simp
next
  from parse_query [of "''garbage''"]
  show "\<exists>s. generateSlabStructure ''garbage'' = Inr s \<and>
        formula s = ''Cu'' \<and> millerIndex s = Some ''(111)''"
    by (elim exE conjE) simp
qed

subsection \<open>Atom counts and layers\<close>

text \<open>
  Claim C4: for a query whose Miller index is 111 the builder emits
  \<open>2 \<cdot> 3 \<cdot> 3 \<cdot> 4 = 72\<close> atoms, whatever the element; for any other Miller index it emits
  \<open>4 \<cdot> 4 \<cdot> 4 = 64\<close> atoms, in four layers of sixteen, layer \<open>k\<close> at height \<open>k \<cdot> a / 2\<close>
  with \<open>a\<close> the lattice constant; for copper \<open>a = 3.615\<close> and \<open>a / 2 = 1.8075\<close>.
\<close>

theorem atom_counts:
  "\<exists>s props. generateSlabStructure q = Inr s \<and>
     props_or_default (parse_element q) = Some props \<and>
     (parse_face q = ''111'' \<longrightarrow> length (atoms s) = 2 * 3 * 3 * 4 \<and> length (atoms s) = 72) \<and>
     (parse_face q \<noteq> ''111'' \<longrightarrow>
        length (atoms s) = 4 * 4 * 4 \<and> length (atoms s) = 64 \<and>
        map z (atoms s) =
          concat (map (\<lambda>k. replicate 16 (real k * (latticeConstant props / 2))) [0..<4])) \<and>
     (parse_element q = ''Cu'' \<longrightarrow>
        latticeConstant props = 3615 / 1000 \<and> latticeConstant props / 2 = 18075 / 10000)"
proof -
  from build_fields [of q] obtain s props where
    run: "generateSlabStructure q = Inr s" and
    p: "props_or_default (parse_element q) = Some props" and
    a: "atoms s = fst (if parse_face q = ''111''
                    then fcc111 (parse_element q) (latticeConstant props)
                    else fcc100 (parse_element q) (latticeConstant props))"
    by (elim exE conjE)
  have c111: "parse_face q = ''111'' \<longrightarrow> length (atoms s) = 2 * 3 * 3 * 4 \<and> length (atoms s) = 72"
    by (simp add: a fcc111_length)
  have c100: "parse_face q \<noteq> ''111'' \<longrightarrow>
        length (atoms s) = 4 * 4 * 4 \<and> length (atoms s) = 64 \<and>
        map z (atoms s) =
          concat (map (\<lambda>k. replicate 16 (real k * (latticeConstant props / 2))) [0..<4])"
    by (simp add: a fcc100_length fcc100_z)
  have cu: "parse_element q = ''Cu'' \<longrightarrow>
        latticeConstant props = 3615 / 1000 \<and> latticeConstant props / 2 = 18075 / 10000"
    using p props_or_default_Cu [of props] by auto
  show ?thesis
    by (rule exI [where x = s], rule exI [where x = props])
       (rule conjI [OF run conjI [OF p conjI [OF c111 conjI [OF c100 cu]]]])
qed

text \<open>Witness for C4: a query on each path.\<close>

theorem atom_counts_witness:
  "(\<exists>s. generateSlabStructure ''Au(111)'' = Inr s \<and> length (atoms s) = 72) \<and>
   (\<exists>s. generateSlabStructure ''Cu(100)'' = Inr s \<and> length (atoms s) = 64 \<and>
      map z (atoms s) = concat (map (\<lambda>k. replicate 16 (real k * (18075 / 10000))) [0..<4]))"
proof
  from atom_counts [of "''Au(111)''"] parse_Au111
  show "\<exists>s. generateSlabStructure ''Au(111)'' = Inr s \<and> length (atoms s) = 72"
    by auto
next
  from atom_counts [of "''Cu(100)''"] obtain s props where
    h0: "generateSlabStructure ''Cu(100)'' = Inr s \<and>
     props_or_default (parse_element ''Cu(100)'') = Some props \<and>
     (parse_face ''Cu(100)'' = ''111'' \<longrightarrow>
        length (atoms s) = 2 * 3 * 3 * 4 \<and> length (atoms s) = 72) \<and>
     (parse_face ''Cu(100)'' \<noteq> ''111'' \<longrightarrow>
        length (atoms s) = 4 * 4 * 4 \<and> length (atoms s) = 64 \<and>
        map z (atoms s) =
          concat (map (\<lambda>k. replicate 16 (real k * (latticeConstant props / 2))) [0..<4])) \<and>
     (parse_element ''Cu(100)'' = ''Cu'' \<longrightarrow>
        latticeConstant props = 3615 / 1000 \<and> latticeConstant props / 2 = 18075 / 10000)"
    by (elim exE)
  note h = h0 [THEN conjunct1] h0 [THEN conjunct2, THEN conjunct2, THEN conjunct2, THEN conjunct1]
    h0 [THEN conjunct2, THEN conjunct2, THEN conjunct2, THEN conjunct2]
  from h(2,3) parse_Cu100 have "length (atoms s) = 64 \<and>
      map z (atoms s) = concat (map (\<lambda>k. replicate 16 (real k * (18075 / 10000))) [0..<4])"
    by simp
  with h(1) show "\<exists>s. generateSlabStructure ''Cu(100)'' = Inr s \<and> length (atoms s) = 64 \<and>
      map z (atoms s) = concat (map (\<lambda>k. replicate 16 (real k * (18075 / 10000))) [0..<4])"
    by (intro exI [where x = s] conjI) simp_all
qed

subsection \<open>Lattice vectors\<close>

text \<open>
  Claim C7: every structure of the builder has exactly three lattice vectors, and the
  length of the third is the sum of the inter-layer spacings, one spacing for each of the
  four atomic layers, plus the vacuum of 10; the spacing is \<open>a / \<surd>3\<close> for the face 111
  and \<open>a / 2\<close> otherwise, and it is the distance between consecutive layers of the atoms.
\<close>

theorem lattice_shape:
  "\<exists>s props v1 v2 v3. generateSlabStructure q = Inr s \<and>
     props_or_default (parse_element q) = Some props \<and>
     latticeVectors s = Some [v1, v2, v3] \<and>
     vec_norm v3 = (\<Sum>k<(4::nat). layer_spacing (parse_face q) (latticeConstant props)) + 10 \<and>
     map z (atoms s) =
       concat (map (\<lambda>k. replicate (length (atoms s) div 4)
                          (real k * layer_spacing (parse_face q) (latticeConstant props)))
                 [0..<4])"
proof -
  from build_fields [of q] obtain s props where
    run: "generateSlabStructure q = Inr s" and
    p: "props_or_default (parse_element q) = Some props" and
    a: "atoms s = fst (if parse_face q = ''111''
                    then fcc111 (parse_element q) (latticeConstant props)
                    else fcc100 (parse_element q) (latticeConstant props))" and
    l: "latticeVectors s = Some (snd (if parse_face q = ''111''
                    then fcc111 (parse_element q) (latticeConstant props)
                    else fcc100 (parse_element q) (latticeConstant props)))"
    by (elim exE conjE)
  let ?sp = "layer_spacing (parse_face q) (latticeConstant props)"
  have pos: "0 < latticeConstant props" using p by (rule props_or_default_positive)
  then have sp_pos: "0 \<le> ?sp" by (simp add: layer_spacing_def)
  obtain v1 v2 where lv: "latticeVectors s = Some [v1, v2, [0, 0, 4 * ?sp + 10]]"
    by (cases "parse_face q = ''111''")
       (simp_all add: l fcc111_lattice fcc100_lattice layer_spacing_def)
  have n: "vec_norm [0, 0, 4 * ?sp + 10] = (\<Sum>k<(4::nat). ?sp) + 10"
    using sp_pos by (simp add: vec_norm_normal)
  have zs: "map z (atoms s) =
       concat (map (\<lambda>k. replicate (length (atoms s) div 4) (real k * ?sp)) [0..<4])"
    by (cases "parse_face q = ''111''")
       (simp_all add: a fcc111_z fcc100_z fcc111_length fcc100_length layer_spacing_def)
  show ?thesis
    by (rule exI [where x = s], rule exI [where x = props], rule exI [where x = v1],
        rule exI [where x = v2], rule exI [where x = "[0, 0, 4 * ?sp + 10]"])
       (rule conjI [OF run conjI [OF p conjI [OF lv conjI [OF n zs]]]])
qed

text \<open>
  Witness for C7: for \<open>Cu(100)\<close> the third vector has length
  \<open>4 \<cdot> 1.8075 + 10 = 17.23\<close>.
\<close>

theorem lattice_shape_witness:
  "\<exists>s v1 v2 v3. generateSlabStructure ''Cu(100)'' = Inr s \<and>
     latticeVectors s = Some [v1, v2, v3] \<and> vec_norm v3 = 1723 / 100"
proof -
  from lattice_shape [of "''Cu(100)''"] obtain s props v1 v2 v3 where
    h: "generateSlabStructure ''Cu(100)'' = Inr s \<and>
     props_or_default (parse_element ''Cu(100)'') = Some props \<and>
     latticeVectors s = Some [v1, v2, v3] \<and>
     vec_norm v3 =
       (\<Sum>k<(4::nat). layer_spacing (parse_face ''Cu(100)'') (latticeConstant props)) + 10 \<and>
     map z (atoms s) =
       concat (map (\<lambda>k. replicate (length (atoms s) div 4)
                          (real k * layer_spacing (parse_face ''Cu(100)'') (latticeConstant props)))
                 [0..<4])"
    by (elim exE)
  from h have "latticeConstant props = 3615 / 1000"
    using parse_Cu100 props_or_default_Cu [of props] by simp
  with h have "generateSlabStructure ''Cu(100)'' = Inr s \<and>
     latticeVectors s = Some [v1, v2, v3] \<and> vec_norm v3 = 1723 / 100"
    using parse_Cu100 by (simp add: layer_spacing_def)
  then show ?thesis
    by (intro exI)
qed

subsection \<open>Failure on a structure without surface atoms\<close>

text \<open>
  Claim C1, as stated: for a structure with zero atoms (or zero surface atoms), the analysis
  fails with an explicit empty-structure condition rather than with an unrelated indexing
  error. The engine has no such check. On the structure without atoms it computes
  \<open>maxY = NegInfinity\<close>, finds no surface atom and no candidate, enters the fallback branch
  and throws the \<^verbatim>\<open>TypeError\<close> of reading \<^verbatim>\<open>x\<close> of
  \<^verbatim>\<open>surfaceAtoms[0]\<close>, which is \<^verbatim>\<open>undefined\<close>: the indexing error that the
  claim excludes.
\<close>

theorem empty_structure_counterexample:
  "atoms empty_slab = [] \<and>
   calculateAdsorptionPhysics (\<lambda>k. 0) empty_slab ''CO'' = Inl (TypeError ''x'')"
  by (simp add: empty_slab_def calculateAdsorptionPhysics_def surfaceAtoms_of_def
      candidate_sites_def add_hollow_def)

text \<open>
  Claim C1, amended: whenever the structure has no atoms, or the filter leaves no surface
  atom, the analysis fails for every adsorbate and every random source, and the failure is
  the \<^verbatim>\<open>TypeError\<close> of reading \<^verbatim>\<open>x\<close> of \<^verbatim>\<open>undefined\<close>; it never
  returns a result.
\<close>

theorem empty_structure_TypeError:
  "atoms s = [] \<or> surfaceAtoms_of s = [] \<Longrightarrow>
   calculateAdsorptionPhysics rnd s adsorbate = Inl (TypeError ''x'')"
proof -
  assume "atoms s = [] \<or> surfaceAtoms_of s = []"
  then have "surfaceAtoms_of s = []" using surfaceAtoms_of_Nil by blast
  then show ?thesis
    by (simp add: calculateAdsorptionPhysics_def candidate_sites_Nil add_hollow_def)
qed

text \<open>Witness for C1: the structure without atoms, another adsorbate and random source.\<close>

theorem empty_structure_TypeError_witness:
  "atoms empty_slab = [] \<and>
   calculateAdsorptionPhysics pair_rnd empty_slab ''N2'' = Inl (TypeError ''x'')"
  using empty_structure_TypeError [of empty_slab pair_rnd "''N2''"]
  by (simp add: empty_slab_def)

subsection \<open>Ranking and truncation\<close>

text \<open>
  Claim C2: in every result of the analysis the sites are in ascending order of energy,
  \<open>energy (sites ! i) \<le> energy (sites ! (i + 1))\<close> for every valid \<open>i\<close>, and there are at
  most 8 of them.
\<close>

theorem sites_sorted_bounded:
  assumes "calculateAdsorptionPhysics rnd s adsorbate = Inr r"
  shows "(\<forall>i. i + 1 < length (sites r) \<longrightarrow>
            energy (sites r ! i) \<le> energy (sites r ! (i + 1))) \<and>
         length (sites r) \<le> 8"
proof -
  from analysis_unfold [OF assms] obtain cs where r: "sites r = take 8 (sort_key energy cs)"
    by blast
  have "sorted (map energy (sort_key energy cs))" by (rule sorted_sort_key)
  then have "sorted (take 8 (map energy (sort_key energy cs)))" by (rule sorted_wrt_take)
  then have srt: "sorted (map energy (sites r))" by (simp add: r take_map)
  have "energy (sites r ! i) \<le> energy (sites r ! (i + 1))" if "i + 1 < length (sites r)" for i
    using sorted_nth_mono [OF srt, of i "i + 1"] that by simp
  moreover have "length (sites r) \<le> 8" by (simp add: r)
  ultimately show ?thesis by blast
qed

text \<open>
  Witness for C2: nine atoms give nine on-top candidates, scored in descending order of
  energy; the result holds the eight most stable, the order reversed.
\<close>

theorem sites_sorted_bounded_witness:
  "\<exists>r. calculateAdsorptionPhysics row_rnd row_slab ''CO'' = Inr r \<and>
       map (\<lambda>c. (site_id c, energy c)) (sites r) =
         [(''top-8'', - (17 / 50)), (''top-7'', - (33 / 100)), (''top-6'', - (8 / 25)),
          (''top-5'', - (31 / 100)), (''top-4'', - (3 / 10)), (''top-3'', - (29 / 100)),
          (''top-2'', - (7 / 25)), (''top-1'', - (27 / 100))] \<and>
       (\<forall>i. i + 1 < length (sites r) \<longrightarrow>
            energy (sites r ! i) \<le> energy (sites r ! (i + 1))) \<and>
       length (sites r) \<le> 8"
proof -
  obtain r where run: "calculateAdsorptionPhysics row_rnd row_slab ''CO'' = Inr r"
    and "map (\<lambda>c. (site_id c, energy c)) (sites r) =
         [(''top-8'', - (17 / 50)), (''top-7'', - (33 / 100)), (''top-6'', - (8 / 25)),
          (''top-5'', - (31 / 100)), (''top-4'', - (3 / 10)), (''top-3'', - (29 / 100)),
          (''top-2'', - (7 / 25)), (''top-1'', - (27 / 100))]"
    using row_run
    by (cases "calculateAdsorptionPhysics row_rnd row_slab ''CO''") (auto simp: ranked_sites_def)
  with sites_sorted_bounded [OF run] show ?thesis
    by (intro exI [of _ r]) simp
qed

subsection \<open>Site types\<close>

text \<open>
  Claim C10: every site of every result has type \<open>Top\<close>, \<open>Bridge\<close> or \<open>Hollow\<close>; the
  declared types \<open>fcc\<close> and \<open>hcp\<close> never occur.
\<close>

theorem site_types_closed:
  assumes "calculateAdsorptionPhysics rnd s adsorbate = Inr r" and "site \<in> set (sites r)"
  shows "type site \<in> {Top, Bridge, Hollow} \<and> type site \<noteq> fcc \<and> type site \<noteq> hcp"
proof -
  from analysis_sites [OF assms] obtain c e where "shape_ok s c" "site = c\<lparr>energy := e\<rparr>"
    by blast
  then show ?thesis using shape_ok_type [of s c] by auto
qed

text \<open>Witness for C10: the analysis of the pair returns sites of all three types.\<close>

theorem site_types_closed_witness:
  "\<exists>r. calculateAdsorptionPhysics pair_rnd pair_slab ''CO'' = Inr r \<and>
       sites r = pair_sites \<and>
       (\<forall>site\<in>set (sites r).
          type site \<in> {Top, Bridge, Hollow} \<and> type site \<noteq> fcc \<and> type site \<noteq> hcp)"
proof -
  from pair_result obtain r where
    run: "calculateAdsorptionPhysics pair_rnd pair_slab ''CO'' = Inr r" and
    s: "sites r = pair_sites"
    by (elim exE conjE)
  have g: "(\<forall>site\<in>set (sites r).
          type site \<in> {Top, Bridge, Hollow} \<and> type site \<noteq> fcc \<and> type site \<noteq> hcp)"
    by (rule ballI) (rule site_types_closed [OF run])
  show ?thesis
    by (rule exI [where x = r]) (rule conjI [OF run conjI [OF s g]])
qed

subsection \<open>Site geometry\<close>

text \<open>
  Claim C8: every \<open>Top\<close> site of a result lies at the \<open>(x, y)\<close> of a surface atom, that
  is, of an atom of the structure within 1.5 below the maximum height, with \<open>z\<close> that
  atom's \<open>z\<close> plus 2; every \<open>Bridge\<close> site comes from two surface atoms at positions
  \<open>i < j\<close> of the structure whose Euclidean distance is strictly between 2 and 3, and lies
  at their midpoint with \<open>z\<close> raised by 1.8. Whether a candidate is emitted depends on
  the random source; a pair outside the window, or with an atom below the band, never
  yields a site.
\<close>

theorem site_geometry:
  assumes "calculateAdsorptionPhysics rnd s adsorbate = Inr r" and "site \<in> set (sites r)"
  shows "(type site = Top \<longrightarrow>
            (\<exists>a. spec_surface_atom s a \<and> coordinates site = (x a, y a, Num (z a + 2)))) \<and>
         (type site = Bridge \<longrightarrow>
            (\<exists>i j. i < j \<and> j < length (atoms s) \<and>
               spec_surface_atom s (atoms s ! i) \<and> spec_surface_atom s (atoms s ! j) \<and>
               2 < euclidean_distance (atoms s ! i) (atoms s ! j) \<and>
               euclidean_distance (atoms s ! i) (atoms s ! j) < 3 \<and>
               coordinates site =
                 ((x (atoms s ! i) + x (atoms s ! j)) / 2,
                  (y (atoms s ! i) + y (atoms s ! j)) / 2,
                  Num ((z (atoms s ! i) + z (atoms s ! j)) / 2 + 18 / 10))))"
proof -
  from analysis_sites [OF assms] obtain c e where c: "shape_ok s c" "site = c\<lparr>energy := e\<rparr>"
    by blast
  from c(1) consider
      (top) a where "a \<in> set (surfaceAtoms_of s)" "c = top_site a"
    | (bridge) i j where "i < j" "j < length (surfaceAtoms_of s)"
        "2 < pair_dist (surfaceAtoms_of s ! i) (surfaceAtoms_of s ! j)"
        "pair_dist (surfaceAtoms_of s ! i) (surfaceAtoms_of s ! j) < 3"
        "c = bridge_site (surfaceAtoms_of s ! i) (surfaceAtoms_of s ! j)"
    | (hollow) a0 where "c = hollow_site a0 (maxY_of s)"
    by (auto simp: shape_ok_def candidate_ok_def)
  then show ?thesis
  proof cases
    case top
    have "spec_surface_atom s a" using top(1) by (simp add: surfaceAtoms_spec)
    moreover have "type site = Top" "coordinates site = (x a, y a, Num (z a + 2))"
      using c(2) top(2) by (simp_all add: top_site_def)
    ultimately show ?thesis by auto
  next
    case bridge
    from surface_pair [OF bridge(1,2)] obtain i' j' where
      p: "i' < j'" "j' < length (atoms s)"
         "atoms s ! i' = surfaceAtoms_of s ! i" "atoms s ! j' = surfaceAtoms_of s ! j"
         "spec_surface_atom s (atoms s ! i')" "spec_surface_atom s (atoms s ! j')"
      by blast
    have d: "2 < euclidean_distance (atoms s ! i') (atoms s ! j')"
        "euclidean_distance (atoms s ! i') (atoms s ! j') < 3"
      using bridge(3,4) by (simp_all add: p(3,4) pair_dist_euclidean)
    have t: "type site = Bridge" and co: "coordinates site =
                 ((x (atoms s ! i') + x (atoms s ! j')) / 2,
                  (y (atoms s ! i') + y (atoms s ! j')) / 2,
                  Num ((z (atoms s ! i') + z (atoms s ! j')) / 2 + 18 / 10))"
      using c(2) bridge(5) by (simp_all add: bridge_site_def p(3,4))
    have "\<exists>i j. i < j \<and> j < length (atoms s) \<and>
               spec_surface_atom s (atoms s ! i) \<and> spec_surface_atom s (atoms s ! j) \<and>
               2 < euclidean_distance (atoms s ! i) (atoms s ! j) \<and>
               euclidean_distance (atoms s ! i) (atoms s ! j) < 3 \<and>
               coordinates site =
                 ((x (atoms s ! i) + x (atoms s ! j)) / 2,
                  (y (atoms s ! i) + y (atoms s ! j)) / 2,
                  Num ((z (atoms s ! i) + z (atoms s ! j)) / 2 + 18 / 10))"
      by (rule exI [where x = i'], rule exI [where x = j'])
         (rule conjI [OF p(1) conjI [OF p(2) conjI [OF p(5) conjI [OF p(6)
            conjI [OF d(1) conjI [OF d(2) co]]]]]])
    with t show ?thesis by simp
  next
    case hollow
    then show ?thesis using c(2) by (simp add: hollow_site_def)
  qed
qed

text \<open>
  Witness for C8: in the structure of two layers, the atoms 0 and 1 are surface atoms and
  atom 2 is not; the on-top sites lie 2 above the atoms 0 and 1, and the bridge site lies
  at their midpoint \<open>(1, 1)\<close>, raised by 1.8; their distance is \<open>\<surd>8\<close>.
\<close>

theorem site_geometry_witness:
  "\<exists>r. calculateAdsorptionPhysics pair_rnd band_slab ''CO'' = Inr r \<and>
       sites r = band_sites \<and>
       spec_surface_atom band_slab (atoms band_slab ! 0) \<and>
       spec_surface_atom band_slab (atoms band_slab ! 1) \<and>
       \<not> spec_surface_atom band_slab (atoms band_slab ! 2) \<and>
       euclidean_distance (atoms band_slab ! 0) (atoms band_slab ! 1) = sqrt 8 \<and>
       (\<forall>site\<in>set (sites r).
          (type site = Top \<longrightarrow>
            (\<exists>a. spec_surface_atom band_slab a \<and>
                 coordinates site = (x a, y a, Num (z a + 2)))) \<and>
          (type site = Bridge \<longrightarrow>
            (\<exists>i j. i < j \<and> j < length (atoms band_slab) \<and>
               spec_surface_atom band_slab (atoms band_slab ! i) \<and>
               spec_surface_atom band_slab (atoms band_slab ! j) \<and>
               2 < euclidean_distance (atoms band_slab ! i) (atoms band_slab ! j) \<and>
               euclidean_distance (atoms band_slab ! i) (atoms band_slab ! j) < 3 \<and>
               coordinates site =
                 ((x (atoms band_slab ! i) + x (atoms band_slab ! j)) / 2,
                  (y (atoms band_slab ! i) + y (atoms band_slab ! j)) / 2,
                  Num ((z (atoms band_slab ! i) + z (atoms band_slab ! j)) / 2 + 18 / 10)))))"
proof -
  from band_result obtain r where
    run: "calculateAdsorptionPhysics pair_rnd band_slab ''CO'' = Inr r" and
    s: "sites r = band_sites"
    by (elim exE conjE)
  have a0: "spec_surface_atom band_slab (atoms band_slab ! 0)"
    by (simp add: spec_surface_atom_def band_slab_def createAtom_def)
  have a1: "spec_surface_atom band_slab (atoms band_slab ! 1)"
    by (simp add: spec_surface_atom_def band_slab_def createAtom_def)
  have a2: "\<not> spec_surface_atom band_slab (atoms band_slab ! 2)"
    by (simp add: spec_surface_atom_def band_slab_def createAtom_def)
  have d: "euclidean_distance (atoms band_slab ! 0) (atoms band_slab ! 1) = sqrt 8"
    by (simp add: euclidean_distance_def band_slab_def createAtom_def)
  have g: "\<forall>site\<in>set (sites r).
          (type site = Top \<longrightarrow>
            (\<exists>a. spec_surface_atom band_slab a \<and>
                 coordinates site = (x a, y a, Num (z a + 2)))) \<and>
          (type site = Bridge \<longrightarrow>
            (\<exists>i j. i < j \<and> j < length (atoms band_slab) \<and>
               spec_surface_atom band_slab (atoms band_slab ! i) \<and>
               spec_surface_atom band_slab (atoms band_slab ! j) \<and>
               2 < euclidean_distance (atoms band_slab ! i) (atoms band_slab ! j) \<and>
               euclidean_distance (atoms band_slab ! i) (atoms band_slab ! j) < 3 \<and>
               coordinates site =
                 ((x (atoms band_slab ! i) + x (atoms band_slab ! j)) / 2,
                  (y (atoms band_slab ! i) + y (atoms band_slab ! j)) / 2,
                  Num ((z (atoms band_slab ! i) + z (atoms band_slab ! j)) / 2 + 18 / 10))))"
  proof
    fix site assume "site \<in> set (sites r)"
    from site_geometry [OF run this]
    show "(type site = Top \<longrightarrow>
            (\<exists>a. spec_surface_atom band_slab a \<and>
                 coordinates site = (x a, y a, Num (z a + 2)))) \<and>
          (type site = Bridge \<longrightarrow>
            (\<exists>i j. i < j \<and> j < length (atoms band_slab) \<and>
               spec_surface_atom band_slab (atoms band_slab ! i) \<and>
               spec_surface_atom band_slab (atoms band_slab ! j) \<and>
               2 < euclidean_distance (atoms band_slab ! i) (atoms band_slab ! j) \<and>
               euclidean_distance (atoms band_slab ! i) (atoms band_slab ! j) < 3 \<and>
               coordinates site =
                 ((x (atoms band_slab ! i) + x (atoms band_slab ! j)) / 2,
                  (y (atoms band_slab ! i) + y (atoms band_slab ! j)) / 2,
                  Num ((z (atoms band_slab ! i) + z (atoms band_slab ! j)) / 2 + 18 / 10))))" .
  qed
  show ?thesis
    by (rule exI [where x = r])
       (rule conjI [OF run conjI [OF s conjI [OF a0 conjI [OF a1 conjI [OF a2 conjI [OF d g]]]]]])
qed

subsection \<open>Site energies\<close>



end
